theory Spec2Isabelle
  imports Complex_Main "HOL-Library.AList"
begin

section \<open>The data loader of 2dir-insight (src/core/data\_loader.py)\<close>

text \<open>
  The class \<^verbatim>\<open>DataLoader\<close> reads two-dimensional spectra from four kinds of files into
  one dictionary (spectrum, two frequency axes, metadata), writes such a dictionary
  back to three of them and computes summary statistics. Its methods never assign to
  the attributes of the instance, so the only state is the file system, passed
  explicitly. Every \<^verbatim>\<open>raise\<close> of the source and every exception of a library call
  that depends on the data is a value of the type \<open>error\<close>.

  The libraries the source calls (h5py, numpy, pandas, json, pathlib) are not part of
  the repository. Each call is modelled by a function named after it, on file contents
  taken as the values the file holds rather than its bytes: a float64 is a real
  number and a formatted number is read back as the number that was written.
\<close>

subsection \<open>Paths\<close>

text \<open>
  A path is the string \<^verbatim>\<open>str(Path(file_path))\<close>, in the form pathlib prints it.
  \<^verbatim>\<open>Path.name\<close> is the last component, and empty for the path \<^verbatim>\<open>.\<close>, which has no
  component; \<^verbatim>\<open>Path.suffix\<close> starts at the last dot of the name when that dot is
  neither its first nor its last character (\<^verbatim>\<open>i = name.rfind('.')\<close>,
  \<^verbatim>\<open>0 < i < len(name) - 1\<close>).
\<close>

type_synonym path = string

definition name_of :: "path \<Rightarrow> string" where
  "name_of p = (if p = ''.'' then [] else rev (takeWhile (\<lambda>c. c \<noteq> CHR ''/'') (rev p)))"

definition suffix :: "path \<Rightarrow> string" where
  "suffix p =
     (let name = name_of p;
          ext = rev (takeWhile (\<lambda>c. c \<noteq> CHR ''.'') (rev name))
      in if CHR ''.'' \<in> set name \<and> ext \<noteq> [] \<and> length ext + 1 < length name
         then CHR ''.'' # ext else [])"

subsection \<open>Exceptions\<close>

text \<open>
  \<open>py_exn\<close> are the exceptions raised inside library calls; \<open>error\<close> is what a method
  of the loader raises: its own \<^verbatim>\<open>raise\<close> statements, by line, or a library exception
  it does not catch.
\<close>

datatype py_exn =
    OSError                    \<comment> \<open>h5py cannot open the file as a container\<close>
  | KeyError string            \<comment> \<open>h5py: no dataset of this name\<close>
  | TypeError                  \<comment> \<open>h5py, json: a value of a type they cannot store\<close>
  | LibValueError              \<comment> \<open>numpy, pandas, pathlib: ValueError inside the library\<close>
  | UnpackError nat            \<comment> \<open>unpacking a shape of this rank into two names\<close>
  | RuntimeError               \<comment> \<open>h5py: an attribute cannot be created under this name\<close>
  | JSONDecodeError
  | ParserError

datatype error =
    FileNotFoundError path            \<comment> \<open>line 37\<close>
  | UnsupportedFileFormat string      \<comment> \<open>ValueError, line 40\<close>
  | NotImplementedError string        \<comment> \<open>line 52\<close>
  | TextLoadFailed py_exn             \<comment> \<open>ValueError, line 91\<close>
  | CsvLoadFailed py_exn              \<comment> \<open>ValueError, line 117\<close>
  | UnsupportedOutputFormat string    \<comment> \<open>ValueError, line 167\<close>
  | Uncaught py_exn                   \<comment> \<open>a library exception outside any try\<close>

definition with_suffix :: "path \<Rightarrow> string \<Rightarrow> py_exn + path" where
  "with_suffix p s =
     (if name_of p = [] then Inl LibValueError
      else Inr (take (length p - length (suffix p)) p @ s))"

subsection \<open>Arrays, metadata, the record\<close>

text \<open>
  A numpy array is its shape, its elements in row-major order and its dtype name.
  The dictionary the loader returns has four fixed keys, so it is a record; its
  \<^verbatim>\<open>metadata\<close> is a Python dict, kept as an association list in insertion order.
  Metadata values are the kinds the loader itself produces or reads back: integers
  (unbounded, as Python's), floats, strings, \<^verbatim>\<open>None\<close> (a JSON null), a tuple of
  integers (the shape the CSV reader records), and what becomes of such a tuple in
  JSON (a list) and in an HDF5 attribute (an array).
\<close>

record ndarray =
  shape :: "nat list"
  elems :: "real list"
  dtype :: string

datatype meta_value =
    MInt int
  | MFloat real
  | MStr string
  | MNone
  | MTuple "nat list"
  | MList "nat list"
  | MArray "nat list"

type_synonym metadata = "(string \<times> meta_value) list"

record canonical =
  spectrum :: ndarray
  frequencies_f1 :: ndarray
  frequencies_f2 :: ndarray
  metadata :: metadata

subsection \<open>Files\<close>

text \<open>
  A file is an HDF5 container (named datasets and attributes), a text of numbers
  (its lines, each the list of the numbers on it, empty for a blank line), a CSV
  table (the column labels of the header after the index column, and the rows, each
  an index label and its cells), a JSON document, or anything else. A library reader
  given a file of another kind raises.

  A number in a CSV table is written as an integer (\<^verbatim>\<open>3\<close>) or as a float (\<^verbatim>\<open>3.0\<close>),
  and pandas reads the two differently, so labels and cells keep the difference. A
  label can also be other text. \<open>Mangled l k\<close> is the label pandas makes of the
  \<open>k\<close>-th repetition of the column name \<open>l\<close>: the name followed by a dot and \<open>k\<close>,
  which is the text of a number only when \<open>l\<close> is an integer.
\<close>

record container =
  datasets :: "(string \<times> ndarray) list"
  attrs :: metadata

datatype label = IntLabel int | FloatLabel real | Text string | Mangled label nat

datatype cell = IntText int | FloatText real

record csv_table =
  csv_header :: "label list"
  csv_rows :: "(label \<times> cell list) list"

datatype json = JObject metadata | JInvalid

datatype disk_file =
    H5File container
  | TextFile "real list list"
  | CsvFile csv_table
  | JsonFile json
  | OtherFile

type_synonym fs = "path \<Rightarrow> disk_file option"

subsection \<open>numpy\<close>

definition float64 :: string where
  "float64 = ''float64''"

definition integer_dtypes :: "string list" where
  \<comment> \<open>the dtypes whose elements are written without a decimal point\<close>
  "integer_dtypes =
     [''int8'', ''int16'', ''int32'', ''int64'', ''uint8'', ''uint16'', ''uint32'', ''uint64'']"

definition numeric_dtypes :: "string list" where
  \<comment> \<open>the dtypes of real numbers; any other dtype of an array of the model stands for
      an array of Python objects\<close>
  "numeric_dtypes = integer_dtypes @ [''float16'', ''float32'', ''float64'']"

definition np_linspace :: "real \<Rightarrow> real \<Rightarrow> nat \<Rightarrow> ndarray" where
  \<comment> \<open>\<^verbatim>\<open>div = num - 1\<close>; \<^verbatim>\<open>y = arange(num) * (delta / div)\<close> when \<^verbatim>\<open>div > 0\<close> and
      \<^verbatim>\<open>arange(num) * delta\<close> otherwise; \<^verbatim>\<open>y += start\<close>; the last point is set to
      \<^verbatim>\<open>stop\<close> when there is more than one.\<close>
  "np_linspace start stop num =
     (let divisor = num - 1;
          delta = stop - start;
          y = (if 0 < divisor
               then map (\<lambda>i. real i * (delta / real divisor) + start) [0..<num]
               else map (\<lambda>i. real i * delta + start) [0..<num])
      in \<lparr>shape = [num],
          elems = (if 1 < num then y[num - 1 := stop] else y),
          dtype = float64\<rparr>)"

definition np_random_random :: "(nat \<Rightarrow> real) \<Rightarrow> nat \<Rightarrow> nat \<Rightarrow> ndarray" where
  \<comment> \<open>\<^verbatim>\<open>np.random.random((n1, n2))\<close>; the generator is the stream \<open>rnd\<close>.\<close>
  "np_random_random rnd n1 n2 =
     \<lparr>shape = [n1, n2], elems = map rnd [0..<n1 * n2], dtype = float64\<rparr>"

definition np_loadtxt :: "real list list \<Rightarrow> py_exn + ndarray" where
  \<comment> \<open>Blank lines are skipped, every line must have as many numbers as the first, and
      with the default \<^verbatim>\<open>ndmin=0\<close> axes of length one are squeezed away.\<close>
  "np_loadtxt lines =
     (let rows = filter (\<lambda>r. r \<noteq> []) lines in
      case rows of
        [] \<Rightarrow> Inr \<lparr>shape = [0], elems = [], dtype = float64\<rparr>
      | r # _ \<Rightarrow>
          if list_all (\<lambda>r'. length r' = length r) rows
          then Inr \<lparr>shape = filter (\<lambda>d. d \<noteq> 1) [length rows, length r],
                    elems = concat rows, dtype = float64\<rparr>
          else Inl LibValueError)"

definition rows_of :: "nat \<Rightarrow> nat \<Rightarrow> 'a list \<Rightarrow> 'a list list" where
  \<comment> \<open>the \<open>n\<close> rows of length \<open>m\<close> of a row-major list\<close>
  "rows_of n m xs = map (\<lambda>i. take m (drop (i * m) xs)) [0..<n]"

definition np_savetxt :: "ndarray \<Rightarrow> py_exn + real list list" where
  \<comment> \<open>A one-dimensional array is written as a column; any rank but 1 and 2 is refused.\<close>
  "np_savetxt X =
     (case shape X of
        [n] \<Rightarrow> Inr (map (\<lambda>x. [x]) (elems X))
      | [n, m] \<Rightarrow> Inr (rows_of n m (elems X))
      | _ \<Rightarrow> Inl LibValueError)"

definition np_min :: "ndarray \<Rightarrow> py_exn + real" where
  "np_min a = (if elems a = [] then Inl LibValueError else Inr (Min (set (elems a))))"

definition np_max :: "ndarray \<Rightarrow> py_exn + real" where
  "np_max a = (if elems a = [] then Inl LibValueError else Inr (Max (set (elems a))))"

definition np_mean :: "ndarray \<Rightarrow> real" where
  "np_mean a = sum_list (elems a) / real (length (elems a))"

definition np_std :: "ndarray \<Rightarrow> real" where
  "np_std a =
     sqrt (sum_list (map (\<lambda>x. (x - np_mean a)\<^sup>2) (elems a)) / real (length (elems a)))"

subsection \<open>h5py\<close>

definition h5py_File_r :: "fs \<Rightarrow> path \<Rightarrow> py_exn + container" where
  \<comment> \<open>\<^verbatim>\<open>h5py.File(path, 'r')\<close>\<close>
  "h5py_File_r fs p = (case fs p of Some (H5File c) \<Rightarrow> Inr c | _ \<Rightarrow> Inl OSError)"

definition h5_getitem :: "container \<Rightarrow> string \<Rightarrow> py_exn + ndarray" where
  \<comment> \<open>\<^verbatim>\<open>np.array(f[name])\<close>\<close>
  "h5_getitem c name =
     (case map_of (datasets c) name of None \<Rightarrow> Inl (KeyError name) | Some a \<Rightarrow> Inr a)"

definition dict_set :: "('k \<times> 'v) list \<Rightarrow> 'k \<Rightarrow> 'v \<Rightarrow> ('k \<times> 'v) list" where
  \<comment> \<open>\<^verbatim>\<open>d[k] = v\<close>: replace the value of an existing key, append a new one.\<close>
  "dict_set d k v = AList.update k v d"

definition h5_create_dataset :: "container \<Rightarrow> string \<Rightarrow> ndarray \<Rightarrow> py_exn + container" where
  \<comment> \<open>\<^verbatim>\<open>f.create_dataset(name, data=a)\<close>: the name must be new, and an array of objects
      has no HDF5 type.\<close>
  "h5_create_dataset f name a =
     (if map_of (datasets f) name \<noteq> None then Inl LibValueError
      else if dtype a \<notin> set numeric_dtypes then Inl TypeError
      else Inr (f\<lparr>datasets := datasets f @ [(name, a)]\<rparr>))"

definition h5_attr_value :: "meta_value \<Rightarrow> py_exn + meta_value" where
  \<comment> \<open>The array \<^verbatim>\<open>f.attrs[key] = value\<close> makes of the value, and TypeError when it
      has no HDF5 type: a float and a string as they are, an integer when it fits
      int64 or uint64, a sequence of such integers as an array; \<^verbatim>\<open>None\<close> and larger
      integers are arrays of objects.\<close>
  "h5_attr_value v =
     (case v of
        MInt n \<Rightarrow> if - (2 ^ 63) \<le> n \<and> n < 2 ^ 64 then Inr (MInt n) else Inl TypeError
      | MFloat x \<Rightarrow> Inr (MFloat x)
      | MStr s \<Rightarrow> Inr (MStr s)
      | MNone \<Rightarrow> Inl TypeError
      | MTuple ns \<Rightarrow> if list_all (\<lambda>n. n < 2 ^ 64) ns then Inr (MArray ns) else Inl TypeError
      | MList ns \<Rightarrow> if list_all (\<lambda>n. n < 2 ^ 64) ns then Inr (MArray ns) else Inl TypeError
      | MArray ns \<Rightarrow> Inr (MArray ns))"

definition c_string :: "string \<Rightarrow> string" where
  \<comment> \<open>what the HDF5 library reads of a name: the characters before the first NUL\<close>
  "c_string name = takeWhile (\<lambda>c. c \<noteq> CHR 0x00) name"

definition h5_attrs_setitem :: "metadata \<Rightarrow> string \<Rightarrow> meta_value \<Rightarrow> py_exn + metadata" where
  \<comment> \<open>\<^verbatim>\<open>f.attrs[key] = value\<close>: the type of the value is made first, then the attribute
      is created under the name, which must not be empty, then the value is written,
      and writing a string with a NUL character raises ValueError, which leaves no
      attribute.\<close>
  "h5_attrs_setitem a key v =
     (case h5_attr_value v of
        Inl e \<Rightarrow> Inl e
      | Inr v' \<Rightarrow>
          if c_string key = [] then Inl RuntimeError
          else if (case v' of MStr s \<Rightarrow> CHR 0x00 \<in> set s | _ \<Rightarrow> False) then Inl LibValueError
          else Inr (dict_set a (c_string key) v'))"

subsection \<open>json\<close>

definition json_value :: "meta_value \<Rightarrow> meta_value option" where
  \<comment> \<open>What \<^verbatim>\<open>json.load\<close> reads back of a value \<^verbatim>\<open>json.dump\<close> wrote: a tuple comes
      back as a list; a numpy array is not serializable.\<close>
  "json_value v =
     (case v of
        MInt n \<Rightarrow> Some (MInt n)
      | MFloat x \<Rightarrow> Some (MFloat x)
      | MStr s \<Rightarrow> Some (MStr s)
      | MNone \<Rightarrow> Some MNone
      | MTuple ns \<Rightarrow> Some (MList ns)
      | MList ns \<Rightarrow> Some (MList ns)
      | MArray ns \<Rightarrow> None)"

fun json_items :: "metadata \<Rightarrow> metadata option" where
  \<comment> \<open>the entries as they are serialized, in order, up to the first that cannot be\<close>
  "json_items [] = Some []"
| "json_items ((k, v) # rest) =
     (case json_value v of
        None \<Rightarrow> None
      | Some v' \<Rightarrow> map_option (\<lambda>items. (k, v') # items) (json_items rest))"

definition json_dump :: "metadata \<Rightarrow> py_exn option \<times> json" where
  \<comment> \<open>\<^verbatim>\<open>json.dump(d, f, indent=2)\<close> into a file just opened for writing: the document,
      or TypeError at a value that cannot be serialized, which leaves the file cut
      short.\<close>
  "json_dump d =
     (case json_items d of
        Some items \<Rightarrow> (None, JObject items)
      | None \<Rightarrow> (Some TypeError, JInvalid))"

definition json_load :: "fs \<Rightarrow> path \<Rightarrow> py_exn + metadata" where
  "json_load fs p =
     (case fs p of Some (JsonFile (JObject d)) \<Rightarrow> Inr d | _ \<Rightarrow> Inl JSONDecodeError)"

subsection \<open>pandas\<close>

record dataframe =
  df_index :: "label list"
  df_columns :: "label list"
  df_values :: ndarray

fun mangle_dupe_cols :: "label list \<Rightarrow> label list \<Rightarrow> label list" where
  \<comment> \<open>\<^verbatim>\<open>read_csv\<close> renames the \<open>k\<close>-th repetition of a column name \<open>X\<close> to \<open>X.k\<close>.\<close>
  "mangle_dupe_cols seen [] = []"
| "mangle_dupe_cols seen (c # cs) =
     (if count_list seen c = 0 then c else Mangled c (count_list seen c))
     # mangle_dupe_cols (seen @ [c]) cs"

definition cell_value :: "cell \<Rightarrow> real" where
  "cell_value c = (case c of IntText n \<Rightarrow> of_int n | FloatText x \<Rightarrow> x)"

definition inferred_dtype :: "label list \<Rightarrow> cell list \<Rightarrow> string" where
  \<comment> \<open>The dtype of \<^verbatim>\<open>df.values\<close> after \<^verbatim>\<open>read_csv\<close>: float64 for a frame without columns,
      object for columns without rows, int64 (uint64) when every cell is an integer
      that fits, float64 otherwise.\<close>
  "inferred_dtype header cells =
     (if header = [] then float64
      else if cells = [] then ''object''
      else if list_all (\<lambda>c. case c of IntText n \<Rightarrow> - (2 ^ 63) \<le> n \<and> n < 2 ^ 63
                                     | FloatText x \<Rightarrow> False) cells then ''int64''
      else if list_all (\<lambda>c. case c of IntText n \<Rightarrow> 0 \<le> n \<and> n < 2 ^ 64
                                     | FloatText x \<Rightarrow> False) cells then ''uint64''
      else float64)"

definition pd_read_csv :: "fs \<Rightarrow> path \<Rightarrow> py_exn + dataframe" where
  \<comment> \<open>\<^verbatim>\<open>pd.read_csv(path, index_col=0)\<close>: the first column is the index, the rest of
      the header the column names, the rest of the rows the values. A row with more
      fields than the header is a parser error; a row with fewer is treated alike
      here, where pandas would fill it with NaN, which a list of reals cannot hold.\<close>
  "pd_read_csv fs p =
     (case fs p of
        Some (CsvFile t) \<Rightarrow>
          if list_all (\<lambda>(i, r). length r = length (csv_header t)) (csv_rows t)
          then Inr \<lparr>df_index = map fst (csv_rows t),
                    df_columns = mangle_dupe_cols [] (csv_header t),
                    df_values =
                      \<lparr>shape = [length (csv_rows t), length (csv_header t)],
                       elems = map cell_value (concat (map snd (csv_rows t))),
                       dtype = inferred_dtype (csv_header t) (concat (map snd (csv_rows t)))\<rparr>\<rparr>
          else Inl ParserError
      | _ \<Rightarrow> Inl ParserError)"

fun num_digits :: "nat \<Rightarrow> nat" where
  \<comment> \<open>the length of \<^verbatim>\<open>str(k)\<close>\<close>
  "num_digits k = (if k < 10 then 1 else Suc (num_digits (k div 10)))"

declare num_digits.simps [simp del]

fun label_float :: "label \<Rightarrow> real option" where
  \<comment> \<open>\<^verbatim>\<open>float(text)\<close> of a label; the text \<^verbatim>\<open>n.k\<close> of a renamed integer column is a
      number.\<close>
  "label_float (IntLabel n) = Some (of_int n)"
| "label_float (FloatLabel x) = Some x"
| "label_float (Text s) = None"
| "label_float (Mangled (IntLabel n) k) =
     Some (if 0 \<le> n then of_int n + real k / 10 ^ num_digits k
           else of_int n - real k / 10 ^ num_digits k)"
| "label_float (Mangled l k) = None"

definition astype_float :: "label list \<Rightarrow> py_exn + ndarray" where
  \<comment> \<open>\<^verbatim>\<open>labels.values.astype(float)\<close>\<close>
  "astype_float ls =
     (case those (map label_float ls) of
        Some xs \<Rightarrow> Inr \<lparr>shape = [length ls], elems = xs, dtype = float64\<rparr>
      | None \<Rightarrow> Inl LibValueError)"

definition labels_of :: "ndarray \<Rightarrow> label list" where
  \<comment> \<open>the labels an axis array gives: integers for an integer dtype, floats otherwise\<close>
  "labels_of a =
     (if dtype a \<in> set integer_dtypes then map (\<lambda>x. IntLabel \<lfloor>x\<rfloor>) (elems a)
      else map FloatLabel (elems a))"

definition cells_of :: "ndarray \<Rightarrow> cell list" where
  \<comment> \<open>the cells an array is written as, in row-major order\<close>
  "cells_of a =
     (if dtype a \<in> set integer_dtypes then map (\<lambda>x. IntText \<lfloor>x\<rfloor>) (elems a)
      else map FloatText (elems a))"

definition pd_DataFrame :: "ndarray \<Rightarrow> ndarray \<Rightarrow> ndarray \<Rightarrow> py_exn + dataframe" where
  \<comment> \<open>\<^verbatim>\<open>pd.DataFrame(data, index=index, columns=columns)\<close>: one-dimensional data are
      one column; the index and the columns must be one-dimensional and as long as the
      two dimensions of the data.\<close>
  "pd_DataFrame data_arr index_arr columns_arr =
     (let dims = (case shape data_arr of [n] \<Rightarrow> Some (n, 1) | [n, m] \<Rightarrow> Some (n, m) | _ \<Rightarrow> None)
      in case dims of
           None \<Rightarrow> Inl LibValueError
         | Some (n, m) \<Rightarrow>
             if shape index_arr = [n] \<and> shape columns_arr = [m]
             then Inr \<lparr>df_index = labels_of index_arr,
                       df_columns = labels_of columns_arr,
                       df_values = \<lparr>shape = [n, m], elems = elems data_arr,
                                     dtype = dtype data_arr\<rparr>\<rparr>
             else Inl LibValueError)"

definition to_csv :: "dataframe \<Rightarrow> csv_table" where
  \<comment> \<open>\<^verbatim>\<open>df.to_csv(path)\<close>: the header of column names, then one line for each index
      label with its row.\<close>
  "to_csv df =
     (case shape (df_values df) of
        [n, m] \<Rightarrow> \<lparr>csv_header = df_columns df,
                    csv_rows = zip (df_index df) (rows_of n m (cells_of (df_values df)))\<rparr>
      | _ \<Rightarrow> \<lparr>csv_header = df_columns df, csv_rows = []\<rparr>)"

subsection \<open>The loader\<close>

definition and_then :: "'e + 'a \<Rightarrow> ('a \<Rightarrow> 'e + 'b) \<Rightarrow> 'e + 'b" where
  \<comment> \<open>one statement after another: the first exception ends the block\<close>
  "and_then r f = (case r of Inl e \<Rightarrow> Inl e | Inr x \<Rightarrow> f x)"

definition supported_formats :: "string list" where
  "supported_formats = [''.nmr'', ''.fid'', ''.dat'', ''.txt'', ''.csv'', ''.h5'']"

definition load_hdf5 :: "fs \<Rightarrow> path \<Rightarrow> error + canonical" where
  "load_hdf5 fs file_path =
     (case
        and_then (h5py_File_r fs file_path) (\<lambda>f.
        and_then (h5_getitem f ''spectrum'') (\<lambda>s.
        and_then (h5_getitem f ''frequencies_f1'') (\<lambda>f1.
        and_then (h5_getitem f ''frequencies_f2'') (\<lambda>f2.
        Inr \<lparr>spectrum = s, frequencies_f1 = f1, frequencies_f2 = f2,
             metadata = attrs f\<rparr>))))
      of Inl e \<Rightarrow> Inl (Uncaught e) | Inr data \<Rightarrow> Inr data)"

definition loadtxt_file :: "fs \<Rightarrow> path \<Rightarrow> py_exn + ndarray" where
  \<comment> \<open>\<^verbatim>\<open>np.loadtxt(file_path)\<close>\<close>
  "loadtxt_file fs p =
     (case fs p of
        None \<Rightarrow> Inl OSError
      | Some (TextFile lines) \<Rightarrow> np_loadtxt lines
      | Some _ \<Rightarrow> Inl LibValueError)"

definition load_text_format :: "fs \<Rightarrow> path \<Rightarrow> error + canonical" where
  "load_text_format fs file_path =
     (case
        and_then (loadtxt_file fs file_path) (\<lambda>data_matrix.
        and_then (with_suffix file_path ''.json'') (\<lambda>metadata_file.
        and_then (if fs metadata_file \<noteq> None then json_load fs metadata_file else Inr [])
          (\<lambda>md.
        case shape data_matrix of
          [f1_points, f2_points] \<Rightarrow>
            Inr \<lparr>spectrum = data_matrix,
                 frequencies_f1 = np_linspace 0 12 f1_points,
                 frequencies_f2 = np_linspace 0 12 f2_points,
                 metadata = md\<rparr>
        | sh \<Rightarrow> Inl (UnpackError (length sh)))))
      of Inl e \<Rightarrow> Inl (TextLoadFailed e) | Inr data \<Rightarrow> Inr data)"

definition load_csv :: "fs \<Rightarrow> path \<Rightarrow> error + canonical" where
  "load_csv fs file_path =
     (case
        and_then (pd_read_csv fs file_path) (\<lambda>df.
        let data_matrix = df_values df in
        and_then (astype_float (df_index df)) (\<lambda>freq_f1.
        and_then (astype_float (df_columns df)) (\<lambda>freq_f2.
        Inr \<lparr>spectrum = data_matrix,
             frequencies_f1 = freq_f1,
             frequencies_f2 = freq_f2,
             metadata = [(''file_format'', MStr ''csv''),
                         (''original_file'', MStr file_path),
                         (''data_shape'', MTuple (shape data_matrix))]\<rparr>)))
      of Inl e \<Rightarrow> Inl (CsvLoadFailed e) | Inr data \<Rightarrow> Inr data)"

definition load_nmr_format :: "(nat \<Rightarrow> real) \<Rightarrow> path \<Rightarrow> error + canonical" where
  \<comment> \<open>Nothing in the try block depends on the file, and nothing in it raises.\<close>
  "load_nmr_format rnd file_path =
     Inr \<lparr>spectrum = np_random_random rnd 512 1024,
          frequencies_f1 = np_linspace 0 12 512,
          frequencies_f2 = np_linspace 0 12 1024,
          metadata = [(''file_format'', MStr ''nmr''),
                      (''original_file'', MStr file_path),
                      (''note'', MStr ''NMR format loader needs implementation'')]\<rparr>"

definition load_data :: "(nat \<Rightarrow> real) \<Rightarrow> fs \<Rightarrow> path \<Rightarrow> error + canonical" where
  "load_data rnd fs file_path =
     (if fs file_path = None then Inl (FileNotFoundError file_path)
      else if suffix file_path \<notin> set supported_formats
        then Inl (UnsupportedFileFormat (suffix file_path))
      else if suffix file_path = ''.h5'' then load_hdf5 fs file_path
      else if suffix file_path \<in> set [''.txt'', ''.dat''] then load_text_format fs file_path
      else if suffix file_path = ''.csv'' then load_csv fs file_path
      else if suffix file_path \<in> set [''.nmr'', ''.fid''] then load_nmr_format rnd file_path
      else Inl (NotImplementedError (suffix file_path)))"

fun h5_set_attrs :: "container \<Rightarrow> metadata \<Rightarrow> container \<times> py_exn option" where
  \<comment> \<open>\<^verbatim>\<open>for key, value in data['metadata'].items(): f.attrs[key] = value\<close>\<close>
  "h5_set_attrs f [] = (f, None)"
| "h5_set_attrs f ((key, v) # rest) =
     (case h5_attrs_setitem (attrs f) key v of
        Inl e \<Rightarrow> (f, Some e)
      | Inr a \<Rightarrow> h5_set_attrs (f\<lparr>attrs := a\<rparr>) rest)"

definition save_hdf5 :: "fs \<Rightarrow> canonical \<Rightarrow> path \<Rightarrow> fs \<times> error option" where
  \<comment> \<open>The file is created anew; when a statement of the block raises, the file is
      closed with what was written before it.\<close>
  "save_hdf5 fs data output_path =
     (let f0 = \<lparr>datasets = [], attrs = []\<rparr> in
      case h5_create_dataset f0 ''spectrum'' (spectrum data) of
        Inl e \<Rightarrow> (fs(output_path \<mapsto> H5File f0), Some (Uncaught e))
      | Inr f1 \<Rightarrow>
          (case h5_create_dataset f1 ''frequencies_f1'' (frequencies_f1 data) of
             Inl e \<Rightarrow> (fs(output_path \<mapsto> H5File f1), Some (Uncaught e))
           | Inr f2 \<Rightarrow>
               (case h5_create_dataset f2 ''frequencies_f2'' (frequencies_f2 data) of
                  Inl e \<Rightarrow> (fs(output_path \<mapsto> H5File f2), Some (Uncaught e))
                | Inr f3 \<Rightarrow>
                    (let (f', e) = h5_set_attrs f3 (metadata data)
                     in (fs(output_path \<mapsto> H5File f'), map_option Uncaught e)))))"

definition save_csv :: "fs \<Rightarrow> canonical \<Rightarrow> path \<Rightarrow> fs \<times> error option" where
  "save_csv fs data output_path =
     (case pd_DataFrame (spectrum data) (frequencies_f1 data) (frequencies_f2 data) of
        Inl e \<Rightarrow> (fs, Some (Uncaught e))
      | Inr df \<Rightarrow> (fs(output_path \<mapsto> CsvFile (to_csv df)), None))"

definition save_text :: "fs \<Rightarrow> canonical \<Rightarrow> path \<Rightarrow> fs \<times> error option" where
  \<comment> \<open>\<^verbatim>\<open>np.savetxt\<close> opens its file before it looks at the array; the sidecar is
      opened for writing before \<^verbatim>\<open>json.dump\<close> runs.\<close>
  "save_text fs data output_path =
     (case np_savetxt (spectrum data) of
        Inl e \<Rightarrow> (fs(output_path \<mapsto> TextFile []), Some (Uncaught e))
      | Inr lines \<Rightarrow>
          (let fs1 = fs(output_path \<mapsto> TextFile lines) in
           (case with_suffix output_path ''.json'' of
              Inl e \<Rightarrow> (fs1, Some (Uncaught e))
            | Inr metadata_path \<Rightarrow>
                (let (e, doc) = json_dump (metadata data)
                 in (fs1(metadata_path \<mapsto> JsonFile doc), map_option Uncaught e)))))"

definition save_data :: "fs \<Rightarrow> canonical \<Rightarrow> path \<Rightarrow> string \<Rightarrow> fs \<times> error option" where
  "save_data fs data output_path format =
     (if format = ''h5'' then save_hdf5 fs data output_path
      else if format = ''csv'' then save_csv fs data output_path
      else if format = ''txt'' then save_text fs data output_path
      else (fs, Some (UnsupportedOutputFormat format)))"

record data_info =
  info_shape :: "nat list"
  info_dtype :: string
  min_value :: real
  max_value :: real
  mean_value :: real
  std_value :: real
  frequency_range_f1 :: "real \<times> real"
  frequency_range_f2 :: "real \<times> real"
  info_metadata :: metadata

definition get_data_info :: "canonical \<Rightarrow> error + data_info" where
  \<comment> \<open>The entries of the dictionary are evaluated in the order they are written.\<close>
  "get_data_info data =
     (let spectrum = spectrum data in
      case
        and_then (np_min spectrum) (\<lambda>mn.
        and_then (np_max spectrum) (\<lambda>mx.
        let mean = np_mean spectrum; std = np_std spectrum in
        and_then (np_min (frequencies_f1 data)) (\<lambda>f1_min.
        and_then (np_max (frequencies_f1 data)) (\<lambda>f1_max.
        and_then (np_min (frequencies_f2 data)) (\<lambda>f2_min.
        and_then (np_max (frequencies_f2 data)) (\<lambda>f2_max.
        Inr \<lparr>info_shape = shape spectrum,
             info_dtype = dtype spectrum,
             min_value = mn,
             max_value = mx,
             mean_value = mean,
             std_value = std,
             frequency_range_f1 = (f1_min, f1_max),
             frequency_range_f2 = (f2_min, f2_max),
             info_metadata = metadata data\<rparr>))))))
      of Inl e \<Rightarrow> Inl (Uncaught e) | Inr info \<Rightarrow> Inr info)"

subsection \<open>Notions of the specification\<close>

text \<open>
  The Canonical Record of the specification: a spectrum of two dimensions
  \<open>(n1, n2)\<close>, both at least one, and two one-dimensional axes of these lengths;
  every array holds as many elements as its shape says and no key of the metadata
  occurs twice. \<open>axes_match\<close> is the invariant \<^verbatim>\<open>len(axis_f1) == n1\<close> and
  \<^verbatim>\<open>len(axis_f2) == n2\<close> alone, where \<^verbatim>\<open>len\<close> of an array is its first dimension.
\<close>

definition py_len :: "ndarray \<Rightarrow> nat option" where
  "py_len a = (case shape a of [] \<Rightarrow> None | n # _ \<Rightarrow> Some n)"

definition axes_match :: "canonical \<Rightarrow> bool" where
  "axes_match r =
     (case shape (spectrum r) of
        [n1, n2] \<Rightarrow>
          py_len (frequencies_f1 r) = Some n1 \<and> py_len (frequencies_f2 r) = Some n2
      | _ \<Rightarrow> False)"

definition well_formed :: "ndarray \<Rightarrow> bool" where
  "well_formed a = (length (elems a) = prod_list (shape a))"

definition canonical_record :: "canonical \<Rightarrow> bool" where
  "canonical_record r =
     (case shape (spectrum r) of
        [n1, n2] \<Rightarrow>
          1 \<le> n1 \<and> 1 \<le> n2 \<and> shape (frequencies_f1 r) = [n1] \<and> shape (frequencies_f2 r) = [n2]
          \<and> well_formed (spectrum r) \<and> well_formed (frequencies_f1 r)
          \<and> well_formed (frequencies_f2 r) \<and> distinct (map fst (metadata r))
      | _ \<Rightarrow> False)"

definition scalar_or_string :: "meta_value \<Rightarrow> bool" where
  "scalar_or_string v =
     (case v of MInt n \<Rightarrow> True | MFloat x \<Rightarrow> True | MStr s \<Rightarrow> True | _ \<Rightarrow> False)"

text \<open>
  What an HDF5 attribute can hold of such a value, and under which key: a float, an
  integer from \<open>-2\<^sup>6\<^sup>3\<close> up to \<open>2\<^sup>6\<^sup>4 - 1\<close>, a string without a NUL character; a
  key that is not empty and has no NUL character. HDF5 keeps an attribute, its name
  included, in one object header message of at most 64 KiB, and counts the messages
  of an object header in 16 bits; the model has no limits of size, and the
  statements keep to keys shorter than \<open>2\<^sup>1\<^sup>5\<close> characters and to fewer than \<open>2\<^sup>1\<^sup>5\<close>
  entries.
\<close>

definition h5_scalar_or_string :: "meta_value \<Rightarrow> bool" where
  "h5_scalar_or_string v =
     (case v of
        MInt n \<Rightarrow> - (2 ^ 63) \<le> n \<and> n < 2 ^ 64
      | MFloat x \<Rightarrow> True
      | MStr s \<Rightarrow> CHR 0x00 \<notin> set s
      | _ \<Rightarrow> False)"

definition h5_attr_name :: "string \<Rightarrow> bool" where
  "h5_attr_name key = (key \<noteq> [] \<and> CHR 0x00 \<notin> set key \<and> length key < 2 ^ 15)"

section \<open>Properties\<close>

subsection \<open>Shapes of what the library calls return\<close>

lemma shape_np_linspace: "shape (np_linspace a b n) = [n]"
  by (simp add: np_linspace_def Let_def)

lemma length_mangle_dupe_cols: "length (mangle_dupe_cols seen cs) = length cs"
  by (induction cs arbitrary: seen) simp_all

lemma astype_float_shape: "astype_float ls = Inr a \<Longrightarrow> shape a = [length ls]"
  by (auto simp: astype_float_def split: option.splits)

subsection \<open>The axis lengths of a decoded record\<close>

lemma load_text_format_axes:
  assumes "load_text_format fs p = Inr r"
  shows "axes_match r"
  using assms
  by (auto simp: load_text_format_def and_then_def axes_match_def py_len_def shape_np_linspace
      split: sum.splits list.splits if_splits)

lemma load_csv_axes:
  assumes "load_csv fs p = Inr r"
  shows "axes_match r"
  using assms
  by (auto simp: load_csv_def and_then_def pd_read_csv_def axes_match_def py_len_def Let_def
      length_mangle_dupe_cols
      dest!: astype_float_shape
      split: sum.splits option.splits disk_file.splits if_splits)

lemma load_nmr_format_axes:
  assumes "load_nmr_format rnd p = Inr r"
  shows "axes_match r"
  using assms
  by (auto simp: load_nmr_format_def axes_match_def py_len_def shape_np_linspace
      np_random_random_def)

text \<open>
  Claim C1, as amended. Whenever the decode of a path whose suffix is not \<^verbatim>\<open>.h5\<close>
  (so a \<^verbatim>\<open>.txt\<close>, \<^verbatim>\<open>.dat\<close>, \<^verbatim>\<open>.csv\<close>, \<^verbatim>\<open>.nmr\<close> or \<^verbatim>\<open>.fid\<close> file) returns a record,
  the spectrum of the record has two dimensions and the lengths of its two axes
  equal them.
\<close>

theorem decoded_axes_match_unless_hdf5:
  assumes "load_data rnd fs p = Inr r" and "suffix p \<noteq> ''.h5''"
  shows "axes_match r"
  using assms
  by (auto simp: load_data_def load_text_format_axes load_csv_axes load_nmr_format_axes
      split: if_splits)

theorem decoded_axes_match_unless_hdf5_witness:
  "load_data (\<lambda>_. 0) [''a.txt'' \<mapsto> TextFile [[1, 2], [3, 4]]] ''a.txt''
     = Inr \<lparr>spectrum = \<lparr>shape = [2, 2], elems = [1, 2, 3, 4], dtype = ''float64''\<rparr>,
          frequencies_f1 = np_linspace 0 12 2,
          frequencies_f2 = np_linspace 0 12 2,
          metadata = []\<rparr>
   \<and> suffix ''a.txt'' \<noteq> ''.h5''
   \<and> axes_match \<lparr>spectrum = \<lparr>shape = [2, 2], elems = [1, 2, 3, 4], dtype = ''float64''\<rparr>,
          frequencies_f1 = np_linspace 0 12 2,
          frequencies_f2 = np_linspace 0 12 2,
          metadata = []\<rparr>"
proof -
  have s: "suffix ''a.txt'' = ''.txt''"
    by (simp add: suffix_def name_of_def)
  have w: "with_suffix ''a.txt'' ''.json'' = Inr ''a.json''"
    by (simp add: with_suffix_def s) (simp add: name_of_def)
  have l: "load_data (\<lambda>_. 0) [''a.txt'' \<mapsto> TextFile [[1, 2], [3, 4]]] ''a.txt''
     = Inr \<lparr>spectrum = \<lparr>shape = [2, 2], elems = [1, 2, 3, 4], dtype = ''float64''\<rparr>,
          frequencies_f1 = np_linspace 0 12 2,
          frequencies_f2 = np_linspace 0 12 2,
          metadata = []\<rparr>"
    by (simp add: load_data_def s supported_formats_def load_text_format_def loadtxt_file_def
        np_loadtxt_def and_then_def w float64_def numeral_2_eq_2)
  have h: "suffix ''a.txt'' \<noteq> ''.h5''"
    by (simp add: s)
  from decoded_axes_match_unless_hdf5 [OF l h] l h show ?thesis
    by simp
qed

text \<open>
  Claim C1 as it is stated fails on the binary container: the decoder returns the
  three datasets a file holds without comparing their lengths. Here a spectrum of
  shape \<open>(1, 2)\<close> comes with an f1 axis of three points.
\<close>

theorem hdf5_axes_mismatch_counterexample:
  "load_hdf5
     [''a.h5'' \<mapsto> H5File \<lparr>datasets =
        [(''spectrum'', \<lparr>shape = [1, 2], elems = [1, 2], dtype = ''float64''\<rparr>),
         (''frequencies_f1'', \<lparr>shape = [3], elems = [0, 1, 2], dtype = ''float64''\<rparr>),
         (''frequencies_f2'', \<lparr>shape = [2], elems = [0, 1], dtype = ''float64''\<rparr>)],
        attrs = []\<rparr>] ''a.h5''
   = Inr \<lparr>spectrum = \<lparr>shape = [1, 2], elems = [1, 2], dtype = ''float64''\<rparr>,
          frequencies_f1 = \<lparr>shape = [3], elems = [0, 1, 2], dtype = ''float64''\<rparr>,
          frequencies_f2 = \<lparr>shape = [2], elems = [0, 1], dtype = ''float64''\<rparr>,
          metadata = []\<rparr>
   \<and> \<not> axes_match
        \<lparr>spectrum = \<lparr>shape = [1, 2], elems = [1, 2], dtype = ''float64''\<rparr>,
         frequencies_f1 = \<lparr>shape = [3], elems = [0, 1, 2], dtype = ''float64''\<rparr>,
         frequencies_f2 = \<lparr>shape = [2], elems = [0, 1], dtype = ''float64''\<rparr>,
         metadata = []\<rparr>"
  by (simp add: load_hdf5_def h5py_File_r_def h5_getitem_def and_then_def axes_match_def
      py_len_def)

subsection \<open>The dispatcher\<close>

text \<open>
  Claim C5. The dispatcher looks at the existence of the path first: a path that does
  not exist gives \<^verbatim>\<open>FileNotFoundError\<close> whatever its suffix, and no decoder runs. A
  path that exists and whose suffix is not one of the six registered ones
  (\<^verbatim>\<open>.nmr\<close>, \<^verbatim>\<open>.fid\<close>, \<^verbatim>\<open>.dat\<close>, \<^verbatim>\<open>.txt\<close>, \<^verbatim>\<open>.csv\<close>, \<^verbatim>\<open>.h5\<close>) gives the
  \<^verbatim>\<open>ValueError\<close> of line 40 (unsupported file format), and no record.
\<close>

theorem load_data_existence_before_format:
  "set supported_formats = {''.nmr'', ''.fid'', ''.dat'', ''.txt'', ''.csv'', ''.h5''}
   \<and> (fs p = None \<longrightarrow> load_data rnd fs p = Inl (FileNotFoundError p))
   \<and> (fs p \<noteq> None \<and> suffix p \<notin> set supported_formats
        \<longrightarrow> load_data rnd fs p = Inl (UnsupportedFileFormat (suffix p)))"
  by (auto simp: load_data_def supported_formats_def)

theorem load_data_existence_before_format_witness:
  "Map.empty ''a.xyz'' = None
   \<and> load_data (\<lambda>_. 0) Map.empty ''a.xyz'' = Inl (FileNotFoundError ''a.xyz'')
   \<and> [''a.xyz'' \<mapsto> OtherFile] ''a.xyz'' \<noteq> None
   \<and> suffix ''a.xyz'' \<notin> set supported_formats
   \<and> load_data (\<lambda>_. 0) [''a.xyz'' \<mapsto> OtherFile] ''a.xyz''
       = Inl (UnsupportedFileFormat ''.xyz'')"
proof -
  have s: "suffix ''a.xyz'' = ''.xyz''"
    by (simp add: suffix_def name_of_def)
  have n: "suffix ''a.xyz'' \<notin> set supported_formats"
    by (simp add: s supported_formats_def)
  have e: "[''a.xyz'' \<mapsto> OtherFile] ''a.xyz'' \<noteq> None"
    by simp
  from load_data_existence_before_format [of Map.empty "''a.xyz''" "\<lambda>_. 0"]
    load_data_existence_before_format [of "[''a.xyz'' \<mapsto> OtherFile]" "''a.xyz''" "\<lambda>_. 0"]
    n e s
  show ?thesis
    by simp
qed

lemma load_hdf5_not_NotImplemented: "load_hdf5 fs p \<noteq> Inl (NotImplementedError e)"
  by (simp add: load_hdf5_def split: sum.splits)

lemma load_text_format_not_NotImplemented:
  "load_text_format fs p \<noteq> Inl (NotImplementedError e)"
  by (simp add: load_text_format_def split: sum.splits)

lemma load_csv_not_NotImplemented: "load_csv fs p \<noteq> Inl (NotImplementedError e)"
  by (simp add: load_csv_def split: sum.splits)

lemma load_nmr_format_not_NotImplemented:
  "load_nmr_format rnd p \<noteq> Inl (NotImplementedError e)"
  by (simp add: load_nmr_format_def)

text \<open>
  Claim C10. For a path that exists and whose suffix is registered, exactly one of
  the four conditions of the chain holds, the dispatcher returns what the decoder of
  that branch returns, and the result is never the \<^verbatim>\<open>NotImplementedError\<close> of the last
  branch (line 52).
\<close>

theorem load_data_dispatch_exhaustive:
  assumes "fs p \<noteq> None" and "suffix p \<in> set supported_formats"
  shows "length (filter id [suffix p = ''.h5'', suffix p \<in> set [''.txt'', ''.dat''],
                            suffix p = ''.csv'', suffix p \<in> set [''.nmr'', ''.fid'']]) = 1
    \<and> load_data rnd fs p =
        (if suffix p = ''.h5'' then load_hdf5 fs p
         else if suffix p \<in> set [''.txt'', ''.dat''] then load_text_format fs p
         else if suffix p = ''.csv'' then load_csv fs p
         else load_nmr_format rnd p)
    \<and> load_data rnd fs p \<noteq> Inl (NotImplementedError e)"
proof -
  from assms(2) have c: "suffix p = ''.nmr'' \<or> suffix p = ''.fid'' \<or> suffix p = ''.dat''
      \<or> suffix p = ''.txt'' \<or> suffix p = ''.csv'' \<or> suffix p = ''.h5''"
    by (simp add: supported_formats_def)
  then have one:
    "length (filter id [suffix p = ''.h5'', suffix p \<in> set [''.txt'', ''.dat''],
                        suffix p = ''.csv'', suffix p \<in> set [''.nmr'', ''.fid'']]) = 1"
    by auto
  from c assms have eq: "load_data rnd fs p =
        (if suffix p = ''.h5'' then load_hdf5 fs p
         else if suffix p \<in> set [''.txt'', ''.dat''] then load_text_format fs p
         else if suffix p = ''.csv'' then load_csv fs p
         else load_nmr_format rnd p)"
    by (auto simp: load_data_def)
  have "load_data rnd fs p \<noteq> Inl (NotImplementedError e)"
    unfolding eq
    by (simp add: load_hdf5_not_NotImplemented load_text_format_not_NotImplemented
        load_csv_not_NotImplemented load_nmr_format_not_NotImplemented)
  with one eq show ?thesis
    by blast
qed

theorem load_data_dispatch_exhaustive_witness:
  "[''run1.csv'' \<mapsto> OtherFile] ''run1.csv'' \<noteq> None
   \<and> suffix ''run1.csv'' \<in> set supported_formats
   \<and> load_data (\<lambda>_. 0) [''run1.csv'' \<mapsto> OtherFile] ''run1.csv''
       = load_csv [''run1.csv'' \<mapsto> OtherFile] ''run1.csv''
   \<and> load_data (\<lambda>_. 0) [''run1.csv'' \<mapsto> OtherFile] ''run1.csv''
       \<noteq> Inl (NotImplementedError ''.csv'')"
proof -
  have s: "suffix ''run1.csv'' = ''.csv''"
    by (simp add: suffix_def name_of_def)
  have m: "suffix ''run1.csv'' \<in> set supported_formats"
    by (simp add: s supported_formats_def)
  have e: "[''run1.csv'' \<mapsto> OtherFile] ''run1.csv'' \<noteq> None"
    by simp
  from load_data_dispatch_exhaustive
         [of "[''run1.csv'' \<mapsto> OtherFile]" "''run1.csv''" "\<lambda>_. 0" "''.csv''", OF e m] e m s
  show ?thesis
    by (simp add: load_csv_not_NotImplemented)
qed

subsection \<open>The instrument-native decoder\<close>

text \<open>
  Claim C3, as amended. For every path that exists and ends in \<^verbatim>\<open>.nmr\<close> or \<^verbatim>\<open>.fid\<close>
  the decoder never fails and never reads the file: it returns a \<open>512 \<times> 1024\<close>
  matrix drawn from the random generator, both axes evenly spaced from 0 to 12, and
  exactly three metadata entries, the format name, the path and a note that the
  loader needs implementation. No entry is keyed \<^verbatim>\<open>synthetic\<close>.
\<close>

theorem nmr_decoder_returns_placeholder:
  assumes "fs p \<noteq> None" and "suffix p \<in> set [''.nmr'', ''.fid'']"
  shows "load_data rnd fs p =
           Inr \<lparr>spectrum = np_random_random rnd 512 1024,
                frequencies_f1 = np_linspace 0 12 512,
                frequencies_f2 = np_linspace 0 12 1024,
                metadata = [(''file_format'', MStr ''nmr''),
                            (''original_file'', MStr p),
                            (''note'', MStr ''NMR format loader needs implementation'')]\<rparr>
       \<and> map_of [(''file_format'', MStr ''nmr''),
                  (''original_file'', MStr p),
                  (''note'', MStr ''NMR format loader needs implementation'')] ''synthetic''
           = None"
  using assms by (auto simp: load_data_def supported_formats_def load_nmr_format_def)

theorem nmr_decoder_returns_placeholder_witness:
  "[''a.fid'' \<mapsto> OtherFile] ''a.fid'' \<noteq> None
   \<and> suffix ''a.fid'' \<in> set [''.nmr'', ''.fid'']
   \<and> load_data (\<lambda>_. 0) [''a.fid'' \<mapsto> OtherFile] ''a.fid'' =
           Inr \<lparr>spectrum = np_random_random (\<lambda>_. 0) 512 1024,
                frequencies_f1 = np_linspace 0 12 512,
                frequencies_f2 = np_linspace 0 12 1024,
                metadata = [(''file_format'', MStr ''nmr''),
                            (''original_file'', MStr ''a.fid''),
                            (''note'', MStr ''NMR format loader needs implementation'')]\<rparr>"
proof -
  have e: "[''a.fid'' \<mapsto> OtherFile] ''a.fid'' \<noteq> None"
    by simp
  have s: "suffix ''a.fid'' \<in> set [''.nmr'', ''.fid'']"
    by (simp add: suffix_def name_of_def)
  from nmr_decoder_returns_placeholder
         [of "[''a.fid'' \<mapsto> OtherFile]" "''a.fid''" "\<lambda>_. 0", OF e s] e s
  show ?thesis
    by blast
qed

text \<open>
  Claim C3 as it is stated fails: the decode of an existing \<^verbatim>\<open>.nmr\<close> file does not
  fail, and the record of generated values it returns has no \<^verbatim>\<open>synthetic\<close> entry.
\<close>

theorem nmr_decoder_unmarked_counterexample:
  "(case load_data (\<lambda>_. 0) [''a.nmr'' \<mapsto> OtherFile] ''a.nmr'' of
      Inl e \<Rightarrow> False
    | Inr r \<Rightarrow>
        metadata r = [(''file_format'', MStr ''nmr''),
                      (''original_file'', MStr ''a.nmr''),
                      (''note'', MStr ''NMR format loader needs implementation'')]
        \<and> map_of (metadata r) ''synthetic'' = None)"
proof -
  have s: "suffix ''a.nmr'' = ''.nmr''"
    by (simp add: suffix_def name_of_def)
  show ?thesis
    by (simp add: load_data_def s supported_formats_def load_nmr_format_def)
qed

subsection \<open>The binary container\<close>

text \<open>
  Claim C4, as amended. On a container, the decoder fails exactly when one of the
  three datasets is absent, with the \<^verbatim>\<open>KeyError\<close> of the first absent one in the order
  spectrum, f1 axis, f2 axis, and then returns no record. When the three are present
  it returns them as they are stored, with the attributes as metadata, whatever
  their ranks.
\<close>

theorem load_hdf5_fails_iff_dataset_absent:
  assumes "fs p = Some (H5File c)"
  shows "(map_of (datasets c) ''spectrum'' = None
            \<longrightarrow> load_hdf5 fs p = Inl (Uncaught (KeyError ''spectrum'')))
       \<and> (map_of (datasets c) ''spectrum'' \<noteq> None
          \<and> map_of (datasets c) ''frequencies_f1'' = None
            \<longrightarrow> load_hdf5 fs p = Inl (Uncaught (KeyError ''frequencies_f1'')))
       \<and> (map_of (datasets c) ''spectrum'' \<noteq> None
          \<and> map_of (datasets c) ''frequencies_f1'' \<noteq> None
          \<and> map_of (datasets c) ''frequencies_f2'' = None
            \<longrightarrow> load_hdf5 fs p = Inl (Uncaught (KeyError ''frequencies_f2'')))
       \<and> (map_of (datasets c) ''spectrum'' = Some s
          \<and> map_of (datasets c) ''frequencies_f1'' = Some f1
          \<and> map_of (datasets c) ''frequencies_f2'' = Some f2
            \<longrightarrow> load_hdf5 fs p =
                  Inr \<lparr>spectrum = s, frequencies_f1 = f1, frequencies_f2 = f2,
                       metadata = attrs c\<rparr>)"
  using assms
  by (auto simp: load_hdf5_def h5py_File_r_def h5_getitem_def and_then_def)

theorem load_hdf5_fails_iff_dataset_absent_witness:
  "[''a.h5'' \<mapsto> H5File \<lparr>datasets =
        [(''spectrum'', \<lparr>shape = [1, 2], elems = [1, 2], dtype = ''float64''\<rparr>),
         (''frequencies_f1'', \<lparr>shape = [1], elems = [0], dtype = ''float64''\<rparr>)],
        attrs = [(''nucleus'', MStr ''1H'')]\<rparr>] ''a.h5''
     = Some (H5File \<lparr>datasets =
        [(''spectrum'', \<lparr>shape = [1, 2], elems = [1, 2], dtype = ''float64''\<rparr>),
         (''frequencies_f1'', \<lparr>shape = [1], elems = [0], dtype = ''float64''\<rparr>)],
        attrs = [(''nucleus'', MStr ''1H'')]\<rparr>)
   \<and> map_of [(''spectrum'', \<lparr>shape = [1, 2], elems = [1, 2], dtype = ''float64''\<rparr>),
         (''frequencies_f1'', \<lparr>shape = [1], elems = [0], dtype = ''float64''\<rparr>)]
        ''spectrum'' \<noteq> None
   \<and> map_of [(''spectrum'', \<lparr>shape = [1, 2], elems = [1, 2], dtype = ''float64''\<rparr>),
         (''frequencies_f1'', \<lparr>shape = [1], elems = [0], dtype = ''float64''\<rparr>)]
        ''frequencies_f1'' \<noteq> None
   \<and> map_of [(''spectrum'', \<lparr>shape = [1, 2], elems = [1, 2], dtype = ''float64''\<rparr>),
         (''frequencies_f1'', \<lparr>shape = [1], elems = [0], dtype = ''float64''\<rparr>)]
        ''frequencies_f2'' = None
   \<and> load_hdf5 [''a.h5'' \<mapsto> H5File \<lparr>datasets =
        [(''spectrum'', \<lparr>shape = [1, 2], elems = [1, 2], dtype = ''float64''\<rparr>),
         (''frequencies_f1'', \<lparr>shape = [1], elems = [0], dtype = ''float64''\<rparr>)],
        attrs = [(''nucleus'', MStr ''1H'')]\<rparr>] ''a.h5''
     = Inl (Uncaught (KeyError ''frequencies_f2''))
   \<and> map_of [(''spectrum'', \<lparr>shape = [2], elems = [1, 2], dtype = ''float64''\<rparr>),
         (''frequencies_f1'', \<lparr>shape = [1], elems = [0], dtype = ''float64''\<rparr>),
         (''frequencies_f2'', \<lparr>shape = [1], elems = [0], dtype = ''float64''\<rparr>)]
        ''spectrum'' = Some \<lparr>shape = [2], elems = [1, 2], dtype = ''float64''\<rparr>
   \<and> map_of [(''spectrum'', \<lparr>shape = [2], elems = [1, 2], dtype = ''float64''\<rparr>),
         (''frequencies_f1'', \<lparr>shape = [1], elems = [0], dtype = ''float64''\<rparr>),
         (''frequencies_f2'', \<lparr>shape = [1], elems = [0], dtype = ''float64''\<rparr>)]
        ''frequencies_f1'' = Some \<lparr>shape = [1], elems = [0], dtype = ''float64''\<rparr>
   \<and> map_of [(''spectrum'', \<lparr>shape = [2], elems = [1, 2], dtype = ''float64''\<rparr>),
         (''frequencies_f1'', \<lparr>shape = [1], elems = [0], dtype = ''float64''\<rparr>),
         (''frequencies_f2'', \<lparr>shape = [1], elems = [0], dtype = ''float64''\<rparr>)]
        ''frequencies_f2'' = Some \<lparr>shape = [1], elems = [0], dtype = ''float64''\<rparr>
   \<and> load_hdf5 [''b.h5'' \<mapsto> H5File \<lparr>datasets =
        [(''spectrum'', \<lparr>shape = [2], elems = [1, 2], dtype = ''float64''\<rparr>),
         (''frequencies_f1'', \<lparr>shape = [1], elems = [0], dtype = ''float64''\<rparr>),
         (''frequencies_f2'', \<lparr>shape = [1], elems = [0], dtype = ''float64''\<rparr>)],
        attrs = []\<rparr>] ''b.h5''
     = Inr \<lparr>spectrum = \<lparr>shape = [2], elems = [1, 2], dtype = ''float64''\<rparr>,
            frequencies_f1 = \<lparr>shape = [1], elems = [0], dtype = ''float64''\<rparr>,
            frequencies_f2 = \<lparr>shape = [1], elems = [0], dtype = ''float64''\<rparr>,
            metadata = []\<rparr>"
  using load_hdf5_fails_iff_dataset_absent [of "[''a.h5'' \<mapsto> H5File \<lparr>datasets =
        [(''spectrum'', \<lparr>shape = [1, 2], elems = [1, 2], dtype = ''float64''\<rparr>),
         (''frequencies_f1'', \<lparr>shape = [1], elems = [0], dtype = ''float64''\<rparr>)],
        attrs = [(''nucleus'', MStr ''1H'')]\<rparr>]" "''a.h5''"]
    load_hdf5_fails_iff_dataset_absent [of "[''b.h5'' \<mapsto> H5File \<lparr>datasets =
        [(''spectrum'', \<lparr>shape = [2], elems = [1, 2], dtype = ''float64''\<rparr>),
         (''frequencies_f1'', \<lparr>shape = [1], elems = [0], dtype = ''float64''\<rparr>),
         (''frequencies_f2'', \<lparr>shape = [1], elems = [0], dtype = ''float64''\<rparr>)],
        attrs = []\<rparr>]" "''b.h5''"]
  by simp

text \<open>
  Claim C4 as it is stated fails on the ranks: a container whose spectrum has one
  dimension, whose f1 axis has two and whose f2 axis has none is decoded into a
  record, without any error.
\<close>

theorem load_hdf5_wrong_rank_counterexample:
  "load_hdf5
     [''a.h5'' \<mapsto> H5File \<lparr>datasets =
        [(''spectrum'', \<lparr>shape = [3], elems = [1, 2, 3], dtype = ''float64''\<rparr>),
         (''frequencies_f1'', \<lparr>shape = [1, 2], elems = [0, 1], dtype = ''float64''\<rparr>),
         (''frequencies_f2'', \<lparr>shape = [], elems = [7], dtype = ''float64''\<rparr>)],
        attrs = []\<rparr>] ''a.h5''
   = Inr \<lparr>spectrum = \<lparr>shape = [3], elems = [1, 2, 3], dtype = ''float64''\<rparr>,
          frequencies_f1 = \<lparr>shape = [1, 2], elems = [0, 1], dtype = ''float64''\<rparr>,
          frequencies_f2 = \<lparr>shape = [], elems = [7], dtype = ''float64''\<rparr>,
          metadata = []\<rparr>"
  by (simp add: load_hdf5_def h5py_File_r_def h5_getitem_def and_then_def)

subsection \<open>Round trip through the binary container\<close>

lemma map_of_dict_set: "map_of (dict_set d k v) = (map_of d)(k \<mapsto> v)"
  by (simp add: dict_set_def update_conv')

lemma h5_attrs_setitem_scalar:
  assumes "h5_scalar_or_string v" and "h5_attr_name k"
  shows "h5_attrs_setitem a k v = Inr (dict_set a k v)"
proof -
  from assms(2) have k: "c_string k = k" "k \<noteq> []"
    by (auto simp: h5_attr_name_def c_string_def takeWhile_eq_all_conv)
  from assms(1) k show ?thesis
    by (cases v) (simp_all add: h5_scalar_or_string_def h5_attrs_setitem_def h5_attr_value_def)
qed

lemma h5_set_attrs_scalar:
  assumes "list_all (\<lambda>(k, v). h5_attr_name k \<and> h5_scalar_or_string v) md"
    and "distinct (map fst md)"
  shows "\<exists>f'. h5_set_attrs f md = (f', None) \<and> datasets f' = datasets f
           \<and> map_of (attrs f') = map_of (attrs f) ++ map_of md"
  using assms
proof (induction md arbitrary: f)
  case Nil
  then show ?case by simp
next
  case (Cons kv md)
  obtain k v where kv: "kv = (k, v)"
    by (cases kv)
  from Cons.prems kv have v: "h5_attrs_setitem (attrs f) k v = Inr (dict_set (attrs f) k v)"
    by (simp add: h5_attrs_setitem_scalar)
  from Cons.prems kv have k: "k \<notin> dom (map_of md)"
    by (auto simp: dom_map_of_conv_image_fst)
  from Cons.prems
  have "list_all (\<lambda>(k, v). h5_attr_name k \<and> h5_scalar_or_string v) md"
    and "distinct (map fst md)"
    by simp_all
  from Cons.IH [OF this, of "f\<lparr>attrs := dict_set (attrs f) k v\<rparr>"]
  obtain f' where f': "h5_set_attrs (f\<lparr>attrs := dict_set (attrs f) k v\<rparr>) md = (f', None)"
      "datasets f' = datasets f"
      "map_of (attrs f') = map_of (dict_set (attrs f) k v) ++ map_of md"
    by auto
  have "(map_of (attrs f))(k \<mapsto> v) ++ map_of md = map_of (attrs f) ++ map_of ((k, v) # md)"
    using k by (auto simp: fun_eq_iff map_add_def split: option.splits)
  with f' v kv show ?case
    by (simp add: map_of_dict_set del: map_of.simps)
qed

lemma save_hdf5_datasets:
  assumes "dtype (spectrum r) \<in> set numeric_dtypes"
    and "dtype (frequencies_f1 r) \<in> set numeric_dtypes"
    and "dtype (frequencies_f2 r) \<in> set numeric_dtypes"
  shows "save_hdf5 fs r p =
           (let (f', e) = h5_set_attrs
                            \<lparr>datasets = [(''spectrum'', spectrum r),
                                         (''frequencies_f1'', frequencies_f1 r),
                                         (''frequencies_f2'', frequencies_f2 r)],
                             attrs = []\<rparr> (metadata r)
            in (fs(p \<mapsto> H5File f'), map_option Uncaught e))"
  using assms by (simp add: save_hdf5_def h5_create_dataset_def)

text \<open>
  Claim C2, as amended. For a record whose three arrays have a numeric dtype, which
  has fewer than \<open>2\<^sup>1\<^sup>5\<close> metadata entries, whose metadata keys are not empty, have
  no NUL character and are shorter than \<open>2\<^sup>1\<^sup>5\<close> characters, and whose metadata
  values are floats, integers from \<open>-2\<^sup>6\<^sup>3\<close> up to \<open>2\<^sup>6\<^sup>4 - 1\<close> or strings without a
  NUL character, writing the record to a binary container succeeds, and decoding
  the file that was written gives back the same spectrum and the same two axes,
  element for element, with a metadata dictionary of exactly the entries of the
  record.
\<close>

theorem hdf5_round_trip:
  assumes "list_all (\<lambda>(k, v). h5_attr_name k \<and> h5_scalar_or_string v) (metadata r)"
    and "distinct (map fst (metadata r))"
    and "dtype (spectrum r) \<in> set numeric_dtypes"
    and "dtype (frequencies_f1 r) \<in> set numeric_dtypes"
    and "dtype (frequencies_f2 r) \<in> set numeric_dtypes"
    and "length (metadata r) < 2 ^ 15"
  shows "snd (save_hdf5 fs r p) = None
       \<and> (\<exists>r'. load_hdf5 (fst (save_hdf5 fs r p)) p = Inr r'
             \<and> spectrum r' = spectrum r
             \<and> frequencies_f1 r' = frequencies_f1 r
             \<and> frequencies_f2 r' = frequencies_f2 r
             \<and> map_of (metadata r') = map_of (metadata r))"
proof -
  let ?f = "\<lparr>datasets = [(''spectrum'', spectrum r),
                          (''frequencies_f1'', frequencies_f1 r),
                          (''frequencies_f2'', frequencies_f2 r)],
              attrs = []\<rparr>"
  from h5_set_attrs_scalar [OF assms(1,2), of ?f]
  obtain f' where f': "h5_set_attrs ?f (metadata r) = (f', None)"
      "datasets f' = datasets ?f" "map_of (attrs f') = map_of (metadata r)"
    by auto
  then have s: "save_hdf5 fs r p = (fs(p \<mapsto> H5File f'), None)"
    by (simp add: save_hdf5_datasets [OF assms(3-5)])
  have "load_hdf5 (fs(p \<mapsto> H5File f')) p =
          Inr \<lparr>spectrum = spectrum r, frequencies_f1 = frequencies_f1 r,
               frequencies_f2 = frequencies_f2 r, metadata = attrs f'\<rparr>"
    using f'(2) by (simp add: load_hdf5_def h5py_File_r_def h5_getitem_def and_then_def)
  with s f'(3) show ?thesis
    by simp
qed

theorem hdf5_round_trip_witness:
  "list_all (\<lambda>(k, v). h5_attr_name k \<and> h5_scalar_or_string v)
     [(''nucleus'', MStr ''1H''), (''sw'', MFloat 12), (''scans'', MInt 16)]
   \<and> distinct (map fst [(''nucleus'', MStr ''1H''), (''sw'', MFloat 12), (''scans'', MInt 16)])
   \<and> ''float64'' \<in> set numeric_dtypes
   \<and> length [(''nucleus'', MStr ''1H''), (''sw'', MFloat 12), (''scans'', MInt (16::int))]
       < (2::nat) ^ 15
   \<and> snd (save_hdf5 Map.empty
        \<lparr>spectrum = \<lparr>shape = [1, 2], elems = [1, 2], dtype = ''float64''\<rparr>,
         frequencies_f1 = \<lparr>shape = [1], elems = [0], dtype = ''float64''\<rparr>,
         frequencies_f2 = \<lparr>shape = [2], elems = [0, 1], dtype = ''float64''\<rparr>,
         metadata = [(''nucleus'', MStr ''1H''), (''sw'', MFloat 12), (''scans'', MInt 16)]\<rparr>
        ''a.h5'') = None
   \<and> load_hdf5 (fst (save_hdf5 Map.empty
        \<lparr>spectrum = \<lparr>shape = [1, 2], elems = [1, 2], dtype = ''float64''\<rparr>,
         frequencies_f1 = \<lparr>shape = [1], elems = [0], dtype = ''float64''\<rparr>,
         frequencies_f2 = \<lparr>shape = [2], elems = [0, 1], dtype = ''float64''\<rparr>,
         metadata = [(''nucleus'', MStr ''1H''), (''sw'', MFloat 12), (''scans'', MInt 16)]\<rparr>
        ''a.h5'')) ''a.h5''
     = Inr \<lparr>spectrum = \<lparr>shape = [1, 2], elems = [1, 2], dtype = ''float64''\<rparr>,
         frequencies_f1 = \<lparr>shape = [1], elems = [0], dtype = ''float64''\<rparr>,
         frequencies_f2 = \<lparr>shape = [2], elems = [0, 1], dtype = ''float64''\<rparr>,
         metadata = [(''nucleus'', MStr ''1H''), (''sw'', MFloat 12), (''scans'', MInt 16)]\<rparr>"
proof -
  let ?r = "\<lparr>spectrum = \<lparr>shape = [1, 2], elems = [1, 2], dtype = ''float64''\<rparr>,
         frequencies_f1 = \<lparr>shape = [1], elems = [0], dtype = ''float64''\<rparr>,
         frequencies_f2 = \<lparr>shape = [2], elems = [0, 1], dtype = ''float64''\<rparr>,
         metadata = [(''nucleus'', MStr ''1H''), (''sw'', MFloat 12), (''scans'', MInt 16)]\<rparr>"
  have a: "list_all (\<lambda>(k, v). h5_attr_name k \<and> h5_scalar_or_string v) (metadata ?r)"
    by (simp add: h5_scalar_or_string_def h5_attr_name_def)
  have d: "distinct (map fst (metadata ?r))"
    by simp
  have n: "''float64'' \<in> set numeric_dtypes"
    by (simp add: numeric_dtypes_def)
  then have n1: "dtype (spectrum ?r) \<in> set numeric_dtypes"
    and n2: "dtype (frequencies_f1 ?r) \<in> set numeric_dtypes"
    and n3: "dtype (frequencies_f2 ?r) \<in> set numeric_dtypes"
    by simp_all
  have l: "load_hdf5 (fst (save_hdf5 Map.empty ?r ''a.h5'')) ''a.h5'' = Inr ?r"
    by (simp add: save_hdf5_def h5_create_dataset_def numeric_dtypes_def integer_dtypes_def
        h5_attrs_setitem_def h5_attr_value_def c_string_def dict_set_def load_hdf5_def
        h5py_File_r_def h5_getitem_def and_then_def)
  have m: "length (metadata ?r) < 2 ^ 15"
    by simp
  from hdf5_round_trip [OF a d n1 n2 n3 m, of Map.empty "''a.h5''"] a d n l show ?thesis
    by simp
qed

text \<open>
  Claim C2 as it is stated fails on a scalar that has no HDF5 type: with the integer
  \<open>2\<^sup>6\<^sup>4\<close> as a metadata value the encoder raises TypeError at line 178, after the
  datasets have been written, and the file it leaves decodes to a record without
  that entry.
\<close>

theorem hdf5_round_trip_large_integer_counterexample:
  "scalar_or_string (MInt 18446744073709551616)
   \<and> snd (save_hdf5 Map.empty
        \<lparr>spectrum = \<lparr>shape = [1, 2], elems = [1, 2], dtype = ''float64''\<rparr>,
         frequencies_f1 = \<lparr>shape = [1], elems = [0], dtype = ''float64''\<rparr>,
         frequencies_f2 = \<lparr>shape = [2], elems = [0, 1], dtype = ''float64''\<rparr>,
         metadata = [(''serial'', MInt 18446744073709551616)]\<rparr> ''a.h5'')
      = Some (Uncaught TypeError)
   \<and> load_hdf5 (fst (save_hdf5 Map.empty
        \<lparr>spectrum = \<lparr>shape = [1, 2], elems = [1, 2], dtype = ''float64''\<rparr>,
         frequencies_f1 = \<lparr>shape = [1], elems = [0], dtype = ''float64''\<rparr>,
         frequencies_f2 = \<lparr>shape = [2], elems = [0, 1], dtype = ''float64''\<rparr>,
         metadata = [(''serial'', MInt 18446744073709551616)]\<rparr> ''a.h5'')) ''a.h5''
     = Inr \<lparr>spectrum = \<lparr>shape = [1, 2], elems = [1, 2], dtype = ''float64''\<rparr>,
         frequencies_f1 = \<lparr>shape = [1], elems = [0], dtype = ''float64''\<rparr>,
         frequencies_f2 = \<lparr>shape = [2], elems = [0, 1], dtype = ''float64''\<rparr>,
         metadata = []\<rparr>"
proof -
  show ?thesis
    by (simp add: scalar_or_string_def save_hdf5_def h5_create_dataset_def numeric_dtypes_def
        integer_dtypes_def h5_attrs_setitem_def h5_attr_value_def load_hdf5_def
        h5py_File_r_def h5_getitem_def and_then_def)
qed

text \<open>
  The other values and keys the encoder refuses: a string with a NUL character, an
  empty key, and an array of objects as the spectrum, which stops the encoder at
  line 172 with an empty file.
\<close>

lemma h5py_refuses:
  "CHR 0x00 \<in> set s \<Longrightarrow> \<exists>e. h5_attrs_setitem a key (MStr s) = Inl e"
  "\<exists>e. h5_attrs_setitem a [] v = Inl e"
  "dtype (spectrum r) = ''object''
     \<Longrightarrow> save_hdf5 fs r p
           = (fs(p \<mapsto> H5File \<lparr>datasets = [], attrs = []\<rparr>), Some (Uncaught TypeError))"
proof -
  show "\<exists>e. h5_attrs_setitem a key (MStr s) = Inl e" if "CHR 0x00 \<in> set s"
    using that by (simp add: h5_attrs_setitem_def h5_attr_value_def)
  show "\<exists>e. h5_attrs_setitem a [] v = Inl e"
    by (cases "h5_attr_value v") (simp_all add: h5_attrs_setitem_def c_string_def)
  show "save_hdf5 fs r p
           = (fs(p \<mapsto> H5File \<lparr>datasets = [], attrs = []\<rparr>), Some (Uncaught TypeError))"
    if "dtype (spectrum r) = ''object''"
    using that
    by (simp add: save_hdf5_def h5_create_dataset_def numeric_dtypes_def integer_dtypes_def)
qed

subsection \<open>The sidecar of the delimited-text encoder\<close>

text \<open>
  Claim C9, as amended. Whenever the encoder has written the matrix (the spectrum
  has one or two dimensions) and the path has a name, it writes the sidecar file too,
  whatever the metadata: the sidecar holds what \<^verbatim>\<open>json.dump\<close> makes of the metadata,
  which for empty metadata is the empty JSON object. The matrix file holds the lines
  of the spectrum.
\<close>

theorem save_text_always_writes_sidecar:
  assumes "np_savetxt (spectrum r) = Inr lines" and "with_suffix p ''.json'' = Inr mp"
  shows "fst (save_text fs r p) mp = Some (JsonFile (snd (json_dump (metadata r))))
       \<and> (metadata r = [] \<longrightarrow> fst (save_text fs r p) mp = Some (JsonFile (JObject [])))
       \<and> (mp \<noteq> p \<longrightarrow> fst (save_text fs r p) p = Some (TextFile lines))"
  using assms by (simp add: save_text_def Let_def split_beta json_dump_def)

theorem save_text_always_writes_sidecar_witness:
  "np_savetxt (spectrum
         \<lparr>spectrum = \<lparr>shape = [2, 2], elems = [1, 2, 3, 4], dtype = ''float64''\<rparr>,
          frequencies_f1 = \<lparr>shape = [2], elems = [0, 1], dtype = ''float64''\<rparr>,
          frequencies_f2 = \<lparr>shape = [2], elems = [0, 1], dtype = ''float64''\<rparr>,
          metadata = []\<rparr>) = Inr [[1, 2], [3, 4]]
   \<and> with_suffix ''a.txt'' ''.json'' = Inr ''a.json''
   \<and> ''a.json'' \<noteq> ''a.txt''
   \<and> fst (save_text Map.empty
         \<lparr>spectrum = \<lparr>shape = [2, 2], elems = [1, 2, 3, 4], dtype = ''float64''\<rparr>,
          frequencies_f1 = \<lparr>shape = [2], elems = [0, 1], dtype = ''float64''\<rparr>,
          frequencies_f2 = \<lparr>shape = [2], elems = [0, 1], dtype = ''float64''\<rparr>,
          metadata = []\<rparr> ''a.txt'') ''a.json''
      = Some (JsonFile (JObject []))
   \<and> fst (save_text Map.empty
         \<lparr>spectrum = \<lparr>shape = [2, 2], elems = [1, 2, 3, 4], dtype = ''float64''\<rparr>,
          frequencies_f1 = \<lparr>shape = [2], elems = [0, 1], dtype = ''float64''\<rparr>,
          frequencies_f2 = \<lparr>shape = [2], elems = [0, 1], dtype = ''float64''\<rparr>,
          metadata = []\<rparr> ''a.txt'') ''a.txt''
      = Some (TextFile [[1, 2], [3, 4]])"
proof -
  let ?r = "\<lparr>spectrum = \<lparr>shape = [2, 2], elems = [1, 2, 3, 4], dtype = ''float64''\<rparr>,
          frequencies_f1 = \<lparr>shape = [2], elems = [0, 1], dtype = ''float64''\<rparr>,
          frequencies_f2 = \<lparr>shape = [2], elems = [0, 1], dtype = ''float64''\<rparr>,
          metadata = []\<rparr>"
  have s: "suffix ''a.txt'' = ''.txt''"
    by (simp add: suffix_def name_of_def)
  have w: "with_suffix ''a.txt'' ''.json'' = Inr ''a.json''"
    by (simp add: with_suffix_def s) (simp add: name_of_def)
  have n: "np_savetxt (spectrum ?r) = Inr [[1, 2], [3, 4]]"
    by (simp add: np_savetxt_def rows_of_def numeral_2_eq_2)
  from save_text_always_writes_sidecar [OF n w, of Map.empty] n w show ?thesis
    by (simp add: json_dump_def)
qed

text \<open>
  Claim C9 as it is stated fails: encoding a record whose metadata is empty leaves a
  sidecar file beside the matrix file.
\<close>

theorem save_text_empty_metadata_counterexample:
  "fst (save_text Map.empty
         \<lparr>spectrum = \<lparr>shape = [2, 2], elems = [1, 2, 3, 4], dtype = ''float64''\<rparr>,
          frequencies_f1 = \<lparr>shape = [2], elems = [0, 1], dtype = ''float64''\<rparr>,
          frequencies_f2 = \<lparr>shape = [2], elems = [0, 1], dtype = ''float64''\<rparr>,
          metadata = []\<rparr> ''a.txt'') ''a.json''
   = Some (JsonFile (JObject []))"
proof -
  have s: "suffix ''a.txt'' = ''.txt''"
    by (simp add: suffix_def name_of_def)
  have w: "with_suffix ''a.txt'' ''.json'' = Inr ''a.json''"
    by (simp add: with_suffix_def s) (simp add: name_of_def)
  show ?thesis
    by (simp add: save_text_def np_savetxt_def w json_dump_def)
qed

subsection \<open>Introspection\<close>

text \<open>
  Claim C8. On a record whose spectrum has a dimension of length zero,
  \<^verbatim>\<open>get_data_info\<close> fails: \<^verbatim>\<open>np.min\<close> raises \<^verbatim>\<open>ValueError\<close> on the empty array. On a
  Canonical Record (both dimensions at least one, axes of these lengths) it does not
  fail and returns the shape, the dtype name, the minimum, the maximum, the mean and
  the population standard deviation of the elements of the spectrum, and the minimum
  and maximum of each axis, with the metadata. The function takes the record and
  returns the summary only: no statement of it assigns to the record or to an array.
\<close>

theorem get_data_info_summary:
  "(shape (spectrum r) = [n1, n2] \<and> (n1 = 0 \<or> n2 = 0) \<and> well_formed (spectrum r)
      \<longrightarrow> get_data_info r = Inl (Uncaught LibValueError))
   \<and> (canonical_record r
      \<longrightarrow> get_data_info r =
            Inr \<lparr>info_shape = shape (spectrum r),
                 info_dtype = dtype (spectrum r),
                 min_value = Min (set (elems (spectrum r))),
                 max_value = Max (set (elems (spectrum r))),
                 mean_value = sum_list (elems (spectrum r)) / real (length (elems (spectrum r))),
                 std_value =
                   sqrt (sum_list (map (\<lambda>x. (x - sum_list (elems (spectrum r))
                                                  / real (length (elems (spectrum r))))\<^sup>2)
                                  (elems (spectrum r)))
                         / real (length (elems (spectrum r)))),
                 frequency_range_f1 = (Min (set (elems (frequencies_f1 r))),
                                       Max (set (elems (frequencies_f1 r)))),
                 frequency_range_f2 = (Min (set (elems (frequencies_f2 r))),
                                       Max (set (elems (frequencies_f2 r)))),
                 info_metadata = metadata r\<rparr>)"
proof (intro conjI impI)
  assume "shape (spectrum r) = [n1, n2] \<and> (n1 = 0 \<or> n2 = 0) \<and> well_formed (spectrum r)"
  then have "elems (spectrum r) = []"
    by (auto simp: well_formed_def)
  then show "get_data_info r = Inl (Uncaught LibValueError)"
    by (simp add: get_data_info_def np_min_def and_then_def)
next
  assume c: "canonical_record r"
  then obtain n1 n2 where sh: "shape (spectrum r) = [n1, n2]" "1 \<le> n1" "1 \<le> n2"
      "shape (frequencies_f1 r) = [n1]" "shape (frequencies_f2 r) = [n2]"
      "well_formed (spectrum r)" "well_formed (frequencies_f1 r)" "well_formed (frequencies_f2 r)"
    by (auto simp: canonical_record_def split: list.splits)
  then have "length (elems (spectrum r)) = n1 * n2" "length (elems (frequencies_f1 r)) = n1"
      "length (elems (frequencies_f2 r)) = n2"
    by (simp_all add: well_formed_def)
  with sh have ne: "elems (spectrum r) \<noteq> []" "elems (frequencies_f1 r) \<noteq> []"
      "elems (frequencies_f2 r) \<noteq> []"
    by auto
  then show "get_data_info r =
            Inr \<lparr>info_shape = shape (spectrum r),
                 info_dtype = dtype (spectrum r),
                 min_value = Min (set (elems (spectrum r))),
                 max_value = Max (set (elems (spectrum r))),
                 mean_value = sum_list (elems (spectrum r)) / real (length (elems (spectrum r))),
                 std_value =
                   sqrt (sum_list (map (\<lambda>x. (x - sum_list (elems (spectrum r))
                                                  / real (length (elems (spectrum r))))\<^sup>2)
                                  (elems (spectrum r)))
                         / real (length (elems (spectrum r)))),
                 frequency_range_f1 = (Min (set (elems (frequencies_f1 r))),
                                       Max (set (elems (frequencies_f1 r)))),
                 frequency_range_f2 = (Min (set (elems (frequencies_f2 r))),
                                       Max (set (elems (frequencies_f2 r)))),
                 info_metadata = metadata r\<rparr>"
    by (simp add: get_data_info_def np_min_def np_max_def np_mean_def np_std_def and_then_def
        Let_def)
qed

theorem get_data_info_summary_witness:
  "shape (spectrum \<lparr>spectrum = \<lparr>shape = [0, 2], elems = [], dtype = ''float64''\<rparr>,
          frequencies_f1 = \<lparr>shape = [0], elems = [], dtype = ''float64''\<rparr>,
          frequencies_f2 = \<lparr>shape = [2], elems = [0, 12], dtype = ''float64''\<rparr>,
          metadata = []\<rparr>) = [0, 2]
   \<and> well_formed \<lparr>shape = [0, 2], elems = [], dtype = ''float64''\<rparr>
   \<and> get_data_info \<lparr>spectrum = \<lparr>shape = [0, 2], elems = [], dtype = ''float64''\<rparr>,
          frequencies_f1 = \<lparr>shape = [0], elems = [], dtype = ''float64''\<rparr>,
          frequencies_f2 = \<lparr>shape = [2], elems = [0, 12], dtype = ''float64''\<rparr>,
          metadata = []\<rparr> = Inl (Uncaught LibValueError)
   \<and> canonical_record
        \<lparr>spectrum = \<lparr>shape = [3, 4], elems = [1, 2, 3, 4, 5, 6, 7, 8, 9, 10, 11, 12],
                      dtype = ''float64''\<rparr>,
         frequencies_f1 = \<lparr>shape = [3], elems = [0, 6, 12], dtype = ''float64''\<rparr>,
         frequencies_f2 = \<lparr>shape = [4], elems = [0, 4, 8, 12], dtype = ''float64''\<rparr>,
         metadata = [(''nucleus'', MStr ''1H'')]\<rparr>
   \<and> get_data_info
        \<lparr>spectrum = \<lparr>shape = [3, 4], elems = [1, 2, 3, 4, 5, 6, 7, 8, 9, 10, 11, 12],
                      dtype = ''float64''\<rparr>,
         frequencies_f1 = \<lparr>shape = [3], elems = [0, 6, 12], dtype = ''float64''\<rparr>,
         frequencies_f2 = \<lparr>shape = [4], elems = [0, 4, 8, 12], dtype = ''float64''\<rparr>,
         metadata = [(''nucleus'', MStr ''1H'')]\<rparr>
     = Inr \<lparr>info_shape = [3, 4], info_dtype = ''float64'',
            min_value = 1, max_value = 12, mean_value = 13 / 2, std_value = sqrt (143 / 12),
            frequency_range_f1 = (0, 12), frequency_range_f2 = (0, 12),
            info_metadata = [(''nucleus'', MStr ''1H'')]\<rparr>"
proof -
  let ?e = "\<lparr>spectrum = \<lparr>shape = [0, 2], elems = [], dtype = ''float64''\<rparr>,
          frequencies_f1 = \<lparr>shape = [0], elems = [], dtype = ''float64''\<rparr>,
          frequencies_f2 = \<lparr>shape = [2], elems = [0, 12], dtype = ''float64''\<rparr>,
          metadata = []\<rparr>"
  let ?r = "\<lparr>spectrum = \<lparr>shape = [3, 4], elems = [1, 2, 3, 4, 5, 6, 7, 8, 9, 10, 11, 12],
                      dtype = ''float64''\<rparr>,
         frequencies_f1 = \<lparr>shape = [3], elems = [0, 6, 12], dtype = ''float64''\<rparr>,
         frequencies_f2 = \<lparr>shape = [4], elems = [0, 4, 8, 12], dtype = ''float64''\<rparr>,
         metadata = [(''nucleus'', MStr ''1H'')]\<rparr>"
  have e: "shape (spectrum ?e) = [0, 2] \<and> (0 = (0::nat) \<or> 2 = (0::nat)) \<and> well_formed (spectrum ?e)"
    by (simp add: well_formed_def)
  have c: "canonical_record ?r"
    by (simp add: canonical_record_def well_formed_def)
  have m: "sum_list (map (\<lambda>x. (x - 13 / 2)\<^sup>2) [1, 2, 3, 4, 5, 6, 7, 8, 9, 10, 11, 12 :: real]) / 12
            = 143 / 12"
    by (simp add: power2_eq_square)
  from get_data_info_summary [of ?e 0 2] e have 1: "get_data_info ?e = Inl (Uncaught LibValueError)"
    by blast
  from get_data_info_summary [of ?r] c have "get_data_info ?r = Inr \<lparr>info_shape = shape (spectrum ?r),
                 info_dtype = dtype (spectrum ?r),
                 min_value = Min (set (elems (spectrum ?r))),
                 max_value = Max (set (elems (spectrum ?r))),
                 mean_value = sum_list (elems (spectrum ?r)) / real (length (elems (spectrum ?r))),
                 std_value =
                   sqrt (sum_list (map (\<lambda>x. (x - sum_list (elems (spectrum ?r))
                                                  / real (length (elems (spectrum ?r))))\<^sup>2)
                                  (elems (spectrum ?r)))
                         / real (length (elems (spectrum ?r)))),
                 frequency_range_f1 = (Min (set (elems (frequencies_f1 ?r))),
                                       Max (set (elems (frequencies_f1 ?r)))),
                 frequency_range_f2 = (Min (set (elems (frequencies_f2 ?r))),
                                       Max (set (elems (frequencies_f2 ?r)))),
                 info_metadata = metadata ?r\<rparr>"
    by blast
  then have 2: "get_data_info ?r = Inr \<lparr>info_shape = [3, 4], info_dtype = ''float64'',
            min_value = 1, max_value = 12, mean_value = 13 / 2, std_value = sqrt (143 / 12),
            frequency_range_f1 = (0, 12), frequency_range_f2 = (0, 12),
            info_metadata = [(''nucleus'', MStr ''1H'')]\<rparr>"
    using m by (simp add: power2_eq_square)
  from 1 2 e c show ?thesis
    by simp
qed

subsection \<open>Round trip through delimited text\<close>

lemma concat_rows_of: "concat (rows_of n m xs) = take (n * m) xs"
proof (induction n)
  case 0
  then show ?case by (simp add: rows_of_def)
next
  case (Suc n)
  have "concat (rows_of (Suc n) m xs) = concat (rows_of n m xs) @ take m (drop (n * m) xs)"
    by (simp add: rows_of_def)
  also have "\<dots> = take (n * m) xs @ take m (drop (n * m) xs)"
    by (simp add: Suc.IH)
  also have "\<dots> = take (n * m + m) xs"
    by (simp add: take_add)
  finally show ?case
    by (simp add: add.commute)
qed

lemma length_rows_of: "length (rows_of n m xs) = n"
  by (simp add: rows_of_def)

lemma rows_of_row_length:
  assumes "length xs = n * m" and "row \<in> set (rows_of n m xs)"
  shows "length row = m"
proof -
  from assms(2) obtain i where i: "i < n" "row = take m (drop (i * m) xs)"
    by (auto simp: rows_of_def)
  from i(1) have "i * m + m \<le> n * m"
    by (metis Suc_leI mult_Suc mult_le_mono1 add.commute)
  with assms(1) i(2) show ?thesis
    by simp
qed

lemma np_loadtxt_rows_of:
  assumes "length xs = n * m" and "2 \<le> n" and "2 \<le> m"
  shows "np_loadtxt (rows_of n m xs) = Inr \<lparr>shape = [n, m], elems = xs, dtype = float64\<rparr>"
proof -
  let ?rows = "rows_of n m xs"
  have len: "\<forall>row \<in> set ?rows. length row = m"
    using assms(1) by (blast intro: rows_of_row_length)
  with assms(3) have "\<forall>row \<in> set ?rows. row \<noteq> []"
    by auto
  then have f: "filter (\<lambda>r. r \<noteq> []) ?rows = ?rows"
    by (simp add: filter_id_conv)
  from assms(2) obtain row rest where c: "?rows = row # rest"
    by (cases ?rows) (auto simp: rows_of_def)
  with len have r: "length row = m"
    by simp
  from len have a: "list_all (\<lambda>r'. length r' = m) ?rows"
    by (simp add: list_all_iff)
  have "concat ?rows = xs"
    by (simp add: concat_rows_of assms(1))
  moreover have "length ?rows = n"
    by (rule length_rows_of)
  ultimately show ?thesis
    using f c r a assms(2,3) by (simp add: np_loadtxt_def)
qed

lemma np_linspace_nth:
  assumes "i < n"
  shows "elems (np_linspace a b n) ! i = a + real i * (b - a) / real (n - 1)"
proof -
  consider "n = 1" | "1 < n" "i = n - 1" | "1 < n" "i \<noteq> n - 1"
    using assms by fastforce
  then show ?thesis
  proof cases
    case 1
    with assms show ?thesis
      by (simp add: np_linspace_def)
  next
    case 2
    then show ?thesis
      by (simp add: np_linspace_def Let_def)
  next
    case 3
    with assms show ?thesis
      by (simp add: np_linspace_def Let_def)
  qed
qed

lemma length_np_linspace: "length (elems (np_linspace a b n)) = n"
  by (simp add: np_linspace_def Let_def)

lemma json_dump_serializable:
  assumes "list_all (\<lambda>(k, v). scalar_or_string v) md"
  shows "json_dump md = (None, JObject md)"
proof -
  have v: "json_value v = Some v" if "scalar_or_string v" for v
    using that by (cases v) (simp_all add: scalar_or_string_def json_value_def)
  from assms have "json_items md = Some md"
    by (induction md) (auto simp: v)
  then show ?thesis
    by (simp add: json_dump_def)
qed

text \<open>
  With at least two rows and two columns the round trip through delimited text is
  the one the specification describes: the matrix is read back with the shape and the elements that
  were written, and both axes are regenerated as \<^verbatim>\<open>np.linspace(0, 12, n)\<close>, whose
  \<open>i\<close>-th point is \<open>12 i / (n - 1)\<close> whatever the axes of the record were.
\<close>

lemma text_round_trip:
  assumes "shape (spectrum r) = [n1, n2]" and "well_formed (spectrum r)"
    and "2 \<le> n1" and "2 \<le> n2"
    and "list_all (\<lambda>(k, v). scalar_or_string v) (metadata r)"
    and "with_suffix p ''.json'' = Inr mp" and "mp \<noteq> p"
  shows "snd (save_text fs r p) = None
       \<and> load_text_format (fst (save_text fs r p)) p =
           Inr \<lparr>spectrum = \<lparr>shape = [n1, n2], elems = elems (spectrum r), dtype = float64\<rparr>,
                frequencies_f1 = np_linspace 0 12 n1,
                frequencies_f2 = np_linspace 0 12 n2,
                metadata = metadata r\<rparr>"
proof -
  from assms(1,2) have len: "length (elems (spectrum r)) = n1 * n2"
    by (simp add: well_formed_def)
  let ?lines = "rows_of n1 n2 (elems (spectrum r))"
  have sv: "np_savetxt (spectrum r) = Inr ?lines"
    by (simp add: np_savetxt_def assms(1))
  have s: "save_text fs r p = (fs(p \<mapsto> TextFile ?lines, mp \<mapsto> JsonFile (JObject (metadata r))), None)"
    by (simp add: save_text_def sv assms(6) json_dump_serializable [OF assms(5)])
  have l: "loadtxt_file (fs(p \<mapsto> TextFile ?lines, mp \<mapsto> JsonFile (JObject (metadata r)))) p
            = Inr \<lparr>shape = [n1, n2], elems = elems (spectrum r), dtype = float64\<rparr>"
    using assms(7) by (simp add: loadtxt_file_def np_loadtxt_rows_of [OF len assms(3,4)])
  show ?thesis
    unfolding s
    by (simp add: load_text_format_def l assms(6) and_then_def json_load_def)
qed

lemma sidecar_path_differs:
  assumes "suffix p \<in> set [''.txt'', ''.dat'']"
  shows "\<exists>mp. with_suffix p ''.json'' = Inr mp \<and> mp \<noteq> p"
proof -
  from assms have l: "length (suffix p) = 4"
    by auto
  then have "suffix p \<noteq> []"
    by auto
  then have n: "name_of p \<noteq> []"
    by (auto simp: suffix_def Let_def split: if_splits)
  let ?mp = "take (length p - length (suffix p)) p @ ''.json''"
  have "length ?mp \<noteq> length p"
    using l by simp
  then have "?mp \<noteq> p"
    by metis
  with n show ?thesis
    by (simp add: with_suffix_def)
qed

lemma text_round_trip_dispatch:
  assumes "shape (spectrum r) = [n1, n2]" and "well_formed (spectrum r)"
    and "2 \<le> n1" and "2 \<le> n2"
    and "list_all (\<lambda>(k, v). scalar_or_string v) (metadata r)"
    and "suffix p \<in> set [''.txt'', ''.dat'']"
  shows "load_data rnd (fst (save_data fs r p ''txt'')) p =
           Inr \<lparr>spectrum = \<lparr>shape = [n1, n2], elems = elems (spectrum r), dtype = float64\<rparr>,
                frequencies_f1 = np_linspace 0 12 n1,
                frequencies_f2 = np_linspace 0 12 n2,
                metadata = metadata r\<rparr>"
proof -
  from sidecar_path_differs [OF assms(6)] obtain mp
    where mp: "with_suffix p ''.json'' = Inr mp" "mp \<noteq> p"
    by blast
  have sv: "np_savetxt (spectrum r) = Inr (rows_of n1 n2 (elems (spectrum r)))"
    by (simp add: np_savetxt_def assms(1))
  have e: "fst (save_text fs r p) p \<noteq> None"
    using mp by (simp add: save_text_def sv split_beta)
  have "load_data rnd (fst (save_text fs r p)) p = load_text_format (fst (save_text fs r p)) p"
    using assms(6) e by (auto simp: load_data_def supported_formats_def)
  with text_round_trip [OF assms(1-5) mp] show ?thesis
    by (simp add: save_data_def)
qed

text \<open>
  Claim C6, at the input where the code fails. A record of one row and three columns
  is written as one line; \<^verbatim>\<open>np.loadtxt\<close> reads one line back as a one-dimensional
  array, and unpacking its shape into \<^verbatim>\<open>f1_points, f2_points\<close> raises: the decode of
  the file the encoder has just written fails with the \<^verbatim>\<open>ValueError\<close> of line 91,
  where the claim has the spectrum preserved and the axes regenerated.
\<close>

theorem text_round_trip_single_row_fails:
  "load_data rnd
     (fst (save_data Map.empty
        \<lparr>spectrum = \<lparr>shape = [1, 3], elems = [1, 2, 3], dtype = ''float64''\<rparr>,
         frequencies_f1 = \<lparr>shape = [1], elems = [0], dtype = ''float64''\<rparr>,
         frequencies_f2 = \<lparr>shape = [3], elems = [0, 1, 2], dtype = ''float64''\<rparr>,
         metadata = []\<rparr> ''a.txt'' ''txt'')) ''a.txt''
   = Inl (TextLoadFailed (UnpackError 1))"
proof -
  have s: "suffix ''a.txt'' = ''.txt''"
    by (simp add: suffix_def name_of_def)
  have w: "with_suffix ''a.txt'' ''.json'' = Inr ''a.json''"
    by (simp add: with_suffix_def s) (simp add: name_of_def)
  show ?thesis
    by (simp add: save_data_def save_text_def np_savetxt_def rows_of_def w json_dump_def
        load_data_def s supported_formats_def load_text_format_def loadtxt_file_def
        np_loadtxt_def and_then_def json_load_def)
qed

subsection \<open>Round trip through CSV\<close>

lemma mangle_dupe_cols_distinct:
  assumes "distinct cs" and "set seen \<inter> set cs = {}"
  shows "mangle_dupe_cols seen cs = cs"
  using assms
proof (induction cs arbitrary: seen)
  case Nil
  then show ?case by simp
next
  case (Cons c cs)
  from Cons.prems have "c \<notin> set seen"
    by auto
  then have z: "count_list seen c = 0"
    by (simp add: count_list_0_iff)
  from Cons.prems have "distinct cs" and "set (seen @ [c]) \<inter> set cs = {}"
    by auto
  then have "mangle_dupe_cols (seen @ [c]) cs = cs"
    by (rule Cons.IH)
  with z show ?case
    by simp
qed

lemma astype_float_FloatLabel:
  "astype_float (map FloatLabel xs) = Inr \<lparr>shape = [length xs], elems = xs, dtype = float64\<rparr>"
proof -
  have "those (map label_float (map FloatLabel xs)) = Some xs"
    by (induction xs) simp_all
  then show ?thesis
    by (simp add: astype_float_def)
qed

lemma float64_not_integer: "float64 \<notin> set integer_dtypes"
  by (simp add: float64_def integer_dtypes_def)

lemma inferred_dtype_FloatText:
  assumes "header \<noteq> []" and "xs \<noteq> []"
  shows "inferred_dtype header (map FloatText xs) = float64"
proof -
  from assms(2) obtain x rest where "xs = x # rest"
    by (cases xs) auto
  with assms(1) show ?thesis
    by (simp add: inferred_dtype_def)
qed

text \<open>
  For a Canonical Record of float64 arrays whose f2 axis has no value twice, the
  round trip through CSV gives back the spectrum and both axes as they were, and a
  metadata dictionary of exactly three entries, the format name, the path and the
  shape, whatever the metadata of the record was.
\<close>

lemma csv_round_trip:
  assumes "canonical_record r" and "distinct (elems (frequencies_f2 r))"
    and "dtype (spectrum r) = float64" and "dtype (frequencies_f1 r) = float64"
    and "dtype (frequencies_f2 r) = float64"
  shows "snd (save_csv fs r p) = None
       \<and> load_csv (fst (save_csv fs r p)) p =
           Inr (r\<lparr>metadata := [(''file_format'', MStr ''csv''),
                                (''original_file'', MStr p),
                                (''data_shape'', MTuple (shape (spectrum r)))]\<rparr>)"
proof -
  from assms(1) obtain n1 n2 where sh: "shape (spectrum r) = [n1, n2]" "1 \<le> n1" "1 \<le> n2"
      "shape (frequencies_f1 r) = [n1]" "shape (frequencies_f2 r) = [n2]"
      "well_formed (spectrum r)" "well_formed (frequencies_f1 r)" "well_formed (frequencies_f2 r)"
    by (auto simp: canonical_record_def split: list.splits)
  then have len: "length (elems (spectrum r)) = n1 * n2" "length (elems (frequencies_f1 r)) = n1"
      "length (elems (frequencies_f2 r)) = n2"
    by (simp_all add: well_formed_def)
  let ?cells = "map FloatText (elems (spectrum r))"
  let ?rows = "rows_of n1 n2 ?cells"
  let ?t = "\<lparr>csv_header = map FloatLabel (elems (frequencies_f2 r)),
             csv_rows = zip (map FloatLabel (elems (frequencies_f1 r))) ?rows\<rparr>"
  have lc: "length ?cells = n1 * n2"
    by (simp add: len(1))
  have s: "save_csv fs r p = (fs(p \<mapsto> CsvFile ?t), None)"
    by (simp add: save_csv_def pd_DataFrame_def sh to_csv_def labels_of_def cells_of_def
        assms(3-5) float64_not_integer)
  have rl: "list_all (\<lambda>(i, row). length row = length (csv_header ?t)) (csv_rows ?t)"
    using rows_of_row_length [OF lc] len(3)
    by (auto simp: list_all_iff dest: set_zip_rightD)
  have i: "map fst (csv_rows ?t) = map FloatLabel (elems (frequencies_f1 r))"
    by (simp add: length_rows_of len(2))
  have v: "concat (map snd (csv_rows ?t)) = ?cells"
    by (simp add: length_rows_of len concat_rows_of)
  have n: "length (csv_rows ?t) = n1"
    by (simp add: length_rows_of len(2))
  have "distinct (map FloatLabel (elems (frequencies_f2 r)))"
    using assms(2) by (simp add: distinct_map inj_on_def)
  then have m: "mangle_dupe_cols [] (csv_header ?t) = map FloatLabel (elems (frequencies_f2 r))"
    by (simp add: mangle_dupe_cols_distinct)
  from sh(2,3) len have ne: "csv_header ?t \<noteq> []" "elems (spectrum r) \<noteq> []"
    by auto
  have d: "inferred_dtype (csv_header ?t) ?cells = float64"
    by (rule inferred_dtype_FloatText [OF ne])
  have "map cell_value ?cells = elems (spectrum r)"
    by (simp add: cell_value_def map_idI)
  with rl i v n m d len(3)
  have "pd_read_csv (fs(p \<mapsto> CsvFile ?t)) p =
          Inr \<lparr>df_index = map FloatLabel (elems (frequencies_f1 r)),
               df_columns = map FloatLabel (elems (frequencies_f2 r)),
               df_values = \<lparr>shape = [n1, n2], elems = elems (spectrum r), dtype = float64\<rparr>\<rparr>"
    by (simp add: pd_read_csv_def)
  then have "load_csv (fs(p \<mapsto> CsvFile ?t)) p =
           Inr \<lparr>spectrum = \<lparr>shape = [n1, n2], elems = elems (spectrum r), dtype = float64\<rparr>,
                frequencies_f1 = \<lparr>shape = [n1], elems = elems (frequencies_f1 r),
                                   dtype = float64\<rparr>,
                frequencies_f2 = \<lparr>shape = [n2], elems = elems (frequencies_f2 r),
                                   dtype = float64\<rparr>,
                metadata = [(''file_format'', MStr ''csv''),
                            (''original_file'', MStr p),
                            (''data_shape'', MTuple [n1, n2])]\<rparr>"
    by (simp add: load_csv_def and_then_def astype_float_FloatLabel len)
  with s sh assms(3-5) show ?thesis
    by simp
qed

text \<open>
  Claim C7, at the input where the code fails. The encoder writes the f2 axis as the
  header of the CSV file. When a value occurs twice on that axis, here 1.0,
  \<^verbatim>\<open>read_csv\<close> renames the second column to \<^verbatim>\<open>1.0.1\<close>, which is not a number:
  \<^verbatim>\<open>df.columns.values.astype(float)\<close> raises and the decode of the file the encoder
  has just written fails with the \<^verbatim>\<open>ValueError\<close> of line 117, where the claim has the
  spectrum and the axes of the record returned.
\<close>

theorem csv_round_trip_repeated_column_fails:
  "load_data rnd
     (fst (save_data Map.empty
        \<lparr>spectrum = \<lparr>shape = [1, 2], elems = [5, 6], dtype = ''float64''\<rparr>,
         frequencies_f1 = \<lparr>shape = [1], elems = [0], dtype = ''float64''\<rparr>,
         frequencies_f2 = \<lparr>shape = [2], elems = [1, 1], dtype = ''float64''\<rparr>,
         metadata = []\<rparr> ''a.csv'' ''csv'')) ''a.csv''
   = Inl (CsvLoadFailed LibValueError)"
proof -
  have s: "suffix ''a.csv'' = ''.csv''"
    by (simp add: suffix_def name_of_def)
  show ?thesis
    by (simp add: save_data_def save_csv_def pd_DataFrame_def labels_of_def cells_of_def
        integer_dtypes_def to_csv_def rows_of_def load_data_def s supported_formats_def
        load_csv_def pd_read_csv_def and_then_def astype_float_def)
qed

text \<open>
  On integer axes the renamed column is the text of a number, \<^verbatim>\<open>1.1\<close> for the second
  column named \<^verbatim>\<open>1\<close>, and the decode returns an f2 axis that the record did not
  have.
\<close>

lemma csv_round_trip_repeated_integer_column:
  "load_csv
     (fst (save_csv Map.empty
        \<lparr>spectrum = \<lparr>shape = [1, 2], elems = [5, 6], dtype = ''int64''\<rparr>,
         frequencies_f1 = \<lparr>shape = [1], elems = [0], dtype = ''int64''\<rparr>,
         frequencies_f2 = \<lparr>shape = [2], elems = [1, 1], dtype = ''int64''\<rparr>,
         metadata = []\<rparr> ''a.csv'')) ''a.csv''
   = Inr \<lparr>spectrum = \<lparr>shape = [1, 2], elems = [5, 6], dtype = ''int64''\<rparr>,
          frequencies_f1 = \<lparr>shape = [1], elems = [0], dtype = ''float64''\<rparr>,
          frequencies_f2 = \<lparr>shape = [2], elems = [1, 11 / 10], dtype = ''float64''\<rparr>,
          metadata = [(''file_format'', MStr ''csv''),
                      (''original_file'', MStr ''a.csv''),
                      (''data_shape'', MTuple [1, 2])]\<rparr>"
proof -
  let ?t = "\<lparr>csv_header = [IntLabel 1, IntLabel 1], csv_rows = [(IntLabel 0, [IntText 5, IntText 6])]\<rparr>"
  have s: "save_csv Map.empty
        \<lparr>spectrum = \<lparr>shape = [1, 2], elems = [5, 6], dtype = ''int64''\<rparr>,
         frequencies_f1 = \<lparr>shape = [1], elems = [0], dtype = ''int64''\<rparr>,
         frequencies_f2 = \<lparr>shape = [2], elems = [1, 1], dtype = ''int64''\<rparr>,
         metadata = []\<rparr> ''a.csv'' = ([''a.csv'' \<mapsto> CsvFile ?t], None)"
    by (simp add: save_csv_def pd_DataFrame_def labels_of_def cells_of_def integer_dtypes_def
        to_csv_def rows_of_def)
  have r: "pd_read_csv [''a.csv'' \<mapsto> CsvFile ?t] ''a.csv'' =
        Inr \<lparr>df_index = [IntLabel 0],
             df_columns = [IntLabel 1, Mangled (IntLabel 1) (Suc 0)],
             df_values = \<lparr>shape = [1, 2], elems = [5, 6], dtype = ''int64''\<rparr>\<rparr>"
    by (simp add: pd_read_csv_def inferred_dtype_def cell_value_def)
  have d: "num_digits (Suc 0) = 1"
    by (subst num_digits.simps) simp
  have c: "astype_float [IntLabel 1, Mangled (IntLabel 1) (Suc 0)]
        = Inr \<lparr>shape = [2], elems = [1, 11 / 10], dtype = ''float64''\<rparr>"
    by (simp add: astype_float_def d float64_def)
  have i: "astype_float [IntLabel 0] = Inr \<lparr>shape = [1], elems = [0], dtype = ''float64''\<rparr>"
    by (simp add: astype_float_def float64_def)
  show ?thesis
    unfolding s by (simp add: load_csv_def r and_then_def c i)
qed

end
